theory Spec2Isabelle
  imports Complex_Main
begin

section \<open>Street tracker: metrics, transit classification and street coverage\<close>

text \<open>
  The development embeds the metric, classification and coverage code of the street
  tracker. Every exception the embedded code can raise is a value of type \<open>error\<close>.
  The floating-point arithmetic of the two metric calculators is a parameter of their
  embedding (a record \<open>arith\<close>), with two instances: exact arithmetic on the real
  numbers and IEEE binary64 with rounding to nearest. The thresholds of the classifiers
  and the coverage percentages are compared as real numbers.
\<close>

datatype error = KeyError | IndexError | AttributeError | ValueError | TypeError
  | ZeroDivisionError | NotImplementedError

text \<open>A coordinate is the pair \<open>(x, y)\<close>; for geographic input that is \<open>(lon, lat)\<close>.\<close>

type_synonym coord = "real \<times> real"

subsection \<open>Floating-point arithmetic\<close>

text \<open>
  The operations on floats that the metric calculators use. A float is read as the real
  number it denotes; \<open>fpi\<close> is \<open>math.pi\<close>.
\<close>

record arith =
  fadd :: "real \<Rightarrow> real \<Rightarrow> real"
  fsub :: "real \<Rightarrow> real \<Rightarrow> real"
  fmul :: "real \<Rightarrow> real \<Rightarrow> real"
  fdiv :: "real \<Rightarrow> real \<Rightarrow> real"
  fsqrt :: "real \<Rightarrow> real"
  fsin :: "real \<Rightarrow> real"
  fcos :: "real \<Rightarrow> real"
  fatan2 :: "real \<Rightarrow> real \<Rightarrow> real"
  fpi :: real

text \<open>\<open>atan2(y, x)\<close>: the angle of the point \<open>(x, y)\<close>, in \<open>(-pi, pi]\<close>.\<close>

definition atan2 :: "real \<Rightarrow> real \<Rightarrow> real" where
  "atan2 y x =
     (if 0 < x then arctan (y / x)
      else if x < 0 then (if 0 \<le> y then arctan (y / x) + pi else arctan (y / x) - pi)
      else if 0 < y then pi / 2
      else if y < 0 then - pi / 2
      else 0)"

text \<open>Arithmetic without rounding.\<close>

definition exact_arith :: arith where
  "exact_arith =
     \<lparr>fadd = (\<lambda>x y. x + y), fsub = (\<lambda>x y. x - y), fmul = (\<lambda>x y. x * y),
      fdiv = (\<lambda>x y. x / y), fsqrt = sqrt, fsin = sin, fcos = cos, fatan2 = atan2,
      fpi = pi\<rparr>"

text \<open>Rounding a real number to the nearest integer, a tie to the even one.\<close>

definition round_half_even :: "real \<Rightarrow> int" where
  "round_half_even y =
     (let f = \<lfloor>y\<rfloor>; r = y - of_int f
      in if r < 1 / 2 then f else if 1 / 2 < r then f + 1
         else if even f then f else f + 1)"

text \<open>
  Rounding to the nearest binary64 number: a number with binary exponent \<open>e\<close> is
  rounded to a multiple of \<open>2 powi (e - 52)\<close>, a significand of 53 bits. The exponent
  range of the format is left out: no overflow to infinity and no subnormal numbers.
\<close>

definition round_double :: "real \<Rightarrow> real" where
  "round_double x =
     (if x = 0 then 0
      else (let e = \<lfloor>log 2 \<bar>x\<bar>\<rfloor>; u = 2 powi (e - 52)
            in of_int (round_half_even (x / u)) * u))"

text \<open>
  IEEE binary64 arithmetic, as Python floats have it: every operation gives the exact
  result rounded. That holds for the four operations and the square root by the
  standard; for \<open>sin\<close>, \<open>cos\<close> and \<open>atan2\<close> it is what a correctly rounding
  mathematical library gives.
\<close>

definition binary64 :: arith where
  "binary64 =
     \<lparr>fadd = (\<lambda>x y. round_double (x + y)), fsub = (\<lambda>x y. round_double (x - y)),
      fmul = (\<lambda>x y. round_double (x * y)), fdiv = (\<lambda>x y. round_double (x / y)),
      fsqrt = (\<lambda>x. round_double (sqrt x)), fsin = (\<lambda>x. round_double (sin x)),
      fcos = (\<lambda>x. round_double (cos x)),
      fatan2 = (\<lambda>y x. round_double (atan2 y x)), fpi = round_double pi\<rparr>"

subsection \<open>scripts/analyze\_walks.py: the segment splitter\<close>

text \<open>
  The loop state of \<open>split_path_into_segments\<close>: the two result lists and the two
  runs under construction.
\<close>

record ('c, 't) split_state =
  segments :: "'c list list"
  segment_timestamps :: "'t list list"
  current_segment :: "'c list"
  current_timestamps :: "'t list"

definition split_init :: "('c, 't) split_state" where
  "split_init = \<lparr>segments = [], segment_timestamps = [],
                  current_segment = [], current_timestamps = []\<rparr>"

text \<open>One iteration of the \<open>for\<close> loop over \<open>zip(coords, timestamps)\<close>.\<close>

definition split_step :: "int \<Rightarrow> 'c \<times> 't \<Rightarrow> ('c, 't) split_state \<Rightarrow> ('c, 't) split_state" where
  "split_step segment_size ct st =
     (let coord = fst ct; timestamp = snd ct;
          cs = current_segment st @ [coord];
          ts = current_timestamps st @ [timestamp]
      in if segment_size \<le> int (length cs)
         then (if 2 \<le> length cs
               then st\<lparr>segments := segments st @ [cs],
                       segment_timestamps := segment_timestamps st @ [ts],
                       current_segment := [coord], current_timestamps := [timestamp]\<rparr>
               else st\<lparr>current_segment := [coord], current_timestamps := [timestamp]\<rparr>)
         else st\<lparr>current_segment := cs, current_timestamps := ts\<rparr>)"

definition split_loop :: "'c list \<Rightarrow> 't list \<Rightarrow> int \<Rightarrow> ('c, 't) split_state" where
  "split_loop coords timestamps segment_size =
     fold (split_step segment_size) (zip coords timestamps) split_init"

definition split_path_into_segments ::
    "'c list \<Rightarrow> 't list \<Rightarrow> int \<Rightarrow> 'c list list \<times> 't list list" where
  "split_path_into_segments coords timestamps segment_size =
     (let st = split_loop coords timestamps segment_size
      in if 2 \<le> length (current_segment st)
         then (segments st @ [current_segment st],
               segment_timestamps st @ [current_timestamps st])
         else (segments st, segment_timestamps st))"

subsection \<open>scripts/analyze\_walks.py: haversine distance and segment metrics\<close>

text \<open>\<open>math.radians(x)\<close>: the product of \<open>x\<close> and the constant \<open>pi / 180\<close>.\<close>

definition radians :: "arith \<Rightarrow> real \<Rightarrow> real" where
  "radians ar x = fmul ar x (fdiv ar (fpi ar) 180)"

text \<open>\<open>math.sqrt(x)\<close> raises ValueError on a negative argument.\<close>

definition py_sqrt :: "arith \<Rightarrow> real \<Rightarrow> error + real" where
  "py_sqrt ar x = (if x < 0 then Inl ValueError else Inr (fsqrt ar x))"

text \<open>
  Distance in kilometres between two points given in degrees. The square \<open>s ** 2\<close> is
  the product of \<open>s\<close> with itself; \<open>sqrt(a)\<close> is evaluated before \<open>sqrt(1 - a)\<close>.
\<close>

definition haversine_distance :: "arith \<Rightarrow> real \<Rightarrow> real \<Rightarrow> real \<Rightarrow> real \<Rightarrow> error + real" where
  "haversine_distance ar lat1_deg lon1_deg lat2_deg lon2_deg =
     (let R = 6371;
          lat1 = radians ar lat1_deg; lon1 = radians ar lon1_deg;
          lat2 = radians ar lat2_deg; lon2 = radians ar lon2_deg;
          dlat = fsub ar lat2 lat1;
          dlon = fsub ar lon2 lon1;
          s1 = fsin ar (fdiv ar dlat 2);
          s2 = fsin ar (fdiv ar dlon 2);
          a = fadd ar (fmul ar s1 s1)
                (fmul ar (fmul ar (fcos ar lat1) (fcos ar lat2)) (fmul ar s2 s2))
      in case py_sqrt ar a of
           Inl e \<Rightarrow> Inl e
         | Inr root_a \<Rightarrow>
            (case py_sqrt ar (fsub ar 1 a) of
               Inl e \<Rightarrow> Inl e
             | Inr root_b \<Rightarrow> Inr (fmul ar R (fmul ar 2 (fatan2 ar root_a root_b)))))"

text \<open>The haversine distance of two coordinates \<open>(lon, lat)\<close>, called as
  \<open>haversine_distance(p[1], p[0], q[1], q[0])\<close>.\<close>

definition haversine_coords :: "arith \<Rightarrow> coord \<Rightarrow> coord \<Rightarrow> error + real" where
  "haversine_coords ar p q = haversine_distance ar (snd p) (fst p) (snd q) (fst q)"

text \<open>
  The loop \<open>for i in range(len(coords) - 1): path_distance += haversine_distance(...)\<close>
  of \<open>calculate_segment_metrics\<close>; \<open>acc\<close> is the running total, and the first
  exception ends the loop.
\<close>

fun sum_haversine :: "arith \<Rightarrow> real \<Rightarrow> coord list \<Rightarrow> error + real" where
  "sum_haversine ar acc (p # q # ps) =
     (case haversine_coords ar p q of
        Inl e \<Rightarrow> Inl e
      | Inr d \<Rightarrow> sum_haversine ar (fadd ar acc d) (q # ps))"
| "sum_haversine ar acc ps = Inr acc"

text \<open>
  A timestamp of a segment is either an ISO string still to be parsed or a datetime:
  its time in seconds on a common time line, and whether it carries a time zone.
\<close>

datatype timestamp = TStr string | TDatetime real bool

text \<open>\<open>t.replace('Z', '+00:00')\<close> on a string.\<close>

definition replace_Z :: "string \<Rightarrow> string" where
  "replace_Z s = concat (map (\<lambda>c. if c = CHR ''Z'' then ''+00:00'' else [c]) s)"

text \<open>
  \<open>datetime.fromisoformat(t.replace('Z', '+00:00'))\<close>. The parser of the standard
  library is a parameter \<open>fromiso\<close>, \<open>None\<close> where it raises ValueError; on a datetime
  object \<open>replace\<close> with two strings raises TypeError.
\<close>

fun parse_timestamp :: "(string \<Rightarrow> (real \<times> bool) option) \<Rightarrow> timestamp \<Rightarrow> error + timestamp" where
  "parse_timestamp fromiso (TStr s) =
     (case fromiso (replace_Z s) of
        None \<Rightarrow> Inl ValueError
      | Some (t, aware) \<Rightarrow> Inr (TDatetime t aware))"
| "parse_timestamp fromiso (TDatetime t aware) = Inl TypeError"

text \<open>The list comprehension over the timestamps: the first failure ends it.\<close>

fun parse_timestamps ::
    "(string \<Rightarrow> (real \<times> bool) option) \<Rightarrow> timestamp list \<Rightarrow> error + timestamp list" where
  "parse_timestamps fromiso [] = Inr []"
| "parse_timestamps fromiso (t # ts) =
     (case parse_timestamp fromiso t of
        Inl e \<Rightarrow> Inl e
      | Inr t' \<Rightarrow> (case parse_timestamps fromiso ts of Inl e \<Rightarrow> Inl e | Inr ts' \<Rightarrow> Inr (t' # ts')))"

text \<open>
  \<open>(b - a).total_seconds()\<close>: subtraction is defined between datetimes only, and not
  between one with a time zone and one without.
\<close>

fun total_seconds_between :: "arith \<Rightarrow> timestamp \<Rightarrow> timestamp \<Rightarrow> error + real" where
  "total_seconds_between ar (TDatetime b aware_b) (TDatetime a aware_a) =
     (if aware_b = aware_a then Inr (fsub ar b a) else Inl TypeError)"
| "total_seconds_between ar b a = Inl TypeError"

text \<open>\<open>point_density\<close> is a float that may be \<open>float('inf')\<close>.\<close>

datatype density = Finite real | Infinite


record segment_metrics =
  sm_direct_distance :: real
  sm_path_distance :: real
  sm_duration_hours :: real
  sm_avg_speed_kmh :: real
  sm_sinuosity :: real
  sm_point_density :: density

definition calculate_segment_metrics ::
    "arith \<Rightarrow> (string \<Rightarrow> (real \<times> bool) option) \<Rightarrow> coord list \<Rightarrow> timestamp list
       \<Rightarrow> error + segment_metrics option" where
  "calculate_segment_metrics ar fromiso coords timestamps =
     (if length coords < 2 then Inr None
      else case timestamps of
        [] \<Rightarrow> Inl IndexError
      | t0 # _ \<Rightarrow>
         (case (case t0 of TStr _ \<Rightarrow> parse_timestamps fromiso timestamps
                          | TDatetime _ _ \<Rightarrow> Inr timestamps) of
            Inl e \<Rightarrow> Inl e
          | Inr parsed \<Rightarrow>
             (case haversine_coords ar (hd coords) (last coords) of
                Inl e \<Rightarrow> Inl e
              | Inr direct_distance \<Rightarrow>
                 (case sum_haversine ar 0 coords of
                    Inl e \<Rightarrow> Inl e
                  | Inr path_distance \<Rightarrow>
                     (case total_seconds_between ar (last parsed) (hd parsed) of
                        Inl e \<Rightarrow> Inl e
                      | Inr secs \<Rightarrow>
                         (let duration = fdiv ar secs 3600;
                              avg_speed = (if 0 < duration
                                           then fdiv ar path_distance duration else 0);
                              sinuosity = (if 0 < direct_distance
                                           then fdiv ar path_distance direct_distance
                                           else 1);
                              point_density =
                                (if 0 < path_distance
                                 then Finite (fdiv ar (real (length coords)) path_distance)
                                 else Infinite)
                          in Inr (Some \<lparr>sm_direct_distance = direct_distance,
                                         sm_path_distance = path_distance,
                                         sm_duration_hours = duration,
                                         sm_avg_speed_kmh = avg_speed,
                                         sm_sinuosity = sinuosity,
                                         sm_point_density = point_density\<rparr>)))))))"



subsection \<open>utils/config.py and scripts/analyze\_walks\_city\_specific.py: region profiles\<close>

record region_profile =
  buffer_distance :: real
  max_walking_speed :: real
  min_walking_speed :: real
  max_sinuosity :: real
  max_direct_distance :: real

text \<open>
  The table \<open>CITY_PARAMS\<close>, declared with the same keys and the same values of these
  five fields in both files; \<open>CITY_PARAMS[city]\<close> raises KeyError on any other key.
\<close>

definition CITY_PARAMS :: "string \<Rightarrow> region_profile option" where
  "CITY_PARAMS = map_of
     [(''london'', \<lparr>buffer_distance = 8, max_walking_speed = 2.5, min_walking_speed = 0.2,
                     max_sinuosity = 3.0, max_direct_distance = 8000\<rparr>),
      (''blacksburg'', \<lparr>buffer_distance = 10, max_walking_speed = 2.8, min_walking_speed = 0.2,
                     max_sinuosity = 3.5, max_direct_distance = 5000\<rparr>),
      (''mumbai'', \<lparr>buffer_distance = 6, max_walking_speed = 2.2, min_walking_speed = 0.1,
                     max_sinuosity = 3.2, max_direct_distance = 6000\<rparr>)]"

definition METRIC_CRS :: string where
  "METRIC_CRS = ''EPSG:3857''"

subsection \<open>Trajectories and trajectory metrics\<close>

text \<open>
  The geometry cell of a walk: a line string with its vertices, a multi-part line, or
  no geometry at all (\<open>None\<close>). \<open>geom.coords\<close> is defined on a line string only: a
  multi-part geometry raises NotImplementedError and \<open>None\<close> has no attribute.
\<close>

datatype shape = LineString "coord list" | MultiLineString "coord list list" | NoGeometry

fun shape_coords :: "shape \<Rightarrow> error + coord list" where
  "shape_coords (LineString cs) = Inr cs"
| "shape_coords (MultiLineString parts) = Inl NotImplementedError"
| "shape_coords NoGeometry = Inl AttributeError"

text \<open>
  What \<open>pd.to_datetime\<close> returns: a time stamp, in seconds on a common time line
  and with or without a time zone, or the missing value \<open>NaT\<close> (for an empty string).
  The parser itself is a parameter \<open>to_datetime\<close> of the calculators, \<open>None\<close> where
  it raises.
\<close>

datatype pd_time = Timestamp real bool | NaT

text \<open>A float that may be \<open>nan\<close>; every comparison with \<open>nan\<close> is false.\<close>

datatype pyfloat = Num real | NaN

text \<open>
  \<open>(b - a).total_seconds()\<close> on the results of \<open>pd.to_datetime\<close>: a time stamp
  with a time zone and one without cannot be subtracted (TypeError); a difference with
  \<open>NaT\<close> is \<open>NaT\<close>, whose \<open>total_seconds()\<close> is \<open>nan\<close>.
\<close>

fun pd_total_seconds :: "arith \<Rightarrow> pd_time \<Rightarrow> pd_time \<Rightarrow> error + pyfloat" where
  "pd_total_seconds ar (Timestamp b aware_b) (Timestamp a aware_a) =
     (if aware_b = aware_a then Inr (Num (fsub ar b a)) else Inl TypeError)"
| "pd_total_seconds ar b a = Inr NaN"

text \<open>
  A walk is one row of the walks table: its two time stamps as they are stored, its
  geometry and the file it came from.
\<close>

record walk =
  start_time :: string
  end_time :: string
  geometry :: shape
  source_file :: string

record path_metrics =
  direct_distance :: real
  path_distance :: real
  duration :: pyfloat
  avg_speed :: real
  sinuosity :: real

text \<open>
  \<open>Point(p).distance(Point(q))\<close>: the planar distance of the coordinates as given,
  the square root of \<open>dx * dx + dy * dy\<close>.
\<close>

definition point_distance :: "arith \<Rightarrow> coord \<Rightarrow> coord \<Rightarrow> real" where
  "point_distance ar p q =
     (let dx = fsub ar (fst p) (fst q); dy = fsub ar (snd p) (snd q)
      in fsqrt ar (fadd ar (fmul ar dx dx) (fmul ar dy dy)))"

text \<open>
  The accumulation loop \<open>for i in range(len(coords) - 1): path_distance +=
  p1.distance(p2)\<close> over the consecutive points; \<open>acc\<close> is the running total.
\<close>

fun sum_consecutive :: "arith \<Rightarrow> (coord \<Rightarrow> coord \<Rightarrow> real) \<Rightarrow> real \<Rightarrow> coord list \<Rightarrow> real" where
  "sum_consecutive ar d acc (p # q # ps) = sum_consecutive ar d (fadd ar acc (d p q)) (q # ps)"
| "sum_consecutive ar d acc ps = acc"

text \<open>
  \<open>calculate_path_metrics\<close> of scripts/analyze\_walks\_city\_specific.py. The lookup
  of the city is outside the \<open>try\<close>, which covers the two calls of
  \<open>pd.to_datetime\<close> only: the subtraction of the times and the read of the
  coordinates raise to the caller.
\<close>

definition city_calculate_path_metrics ::
    "arith \<Rightarrow> (string \<Rightarrow> pd_time option) \<Rightarrow> walk \<Rightarrow> string \<Rightarrow> error + path_metrics option" where
  "city_calculate_path_metrics ar to_datetime path city =
     (case CITY_PARAMS city of
        None \<Rightarrow> Inl KeyError
      | Some params \<Rightarrow>
         (case to_datetime (start_time path) of
            None \<Rightarrow> Inr None
          | Some start \<Rightarrow>
             (case to_datetime (end_time path) of
                None \<Rightarrow> Inr None
              | Some end \<Rightarrow>
                 (case pd_total_seconds ar end start of
                    Inl e \<Rightarrow> Inl e
                  | Inr dur \<Rightarrow>
                     (case shape_coords (geometry path) of
                        Inl e \<Rightarrow> Inl e
                      | Inr coords \<Rightarrow>
                         (if length coords < 2 then Inr None
                          else
                            (let direct = point_distance ar (hd coords) (last coords);
                                 pathd = sum_consecutive ar (point_distance ar) 0 coords;
                                 speed = (case dur of
                                            Num d \<Rightarrow> (if 0 < d then fdiv ar pathd d else 0)
                                          | NaN \<Rightarrow> 0);
                                 sinu = (if 0 < direct then fdiv ar pathd direct else 1)
                             in Inr (Some \<lparr>direct_distance = direct,
                                            path_distance = pathd, duration = dur,
                                            avg_speed = speed, sinuosity = sinu\<rparr>))))))))"

text \<open>
  The four checks of \<open>is_probable_transit\<close>, in the order of the source; the same
  statements stand in data/walk\_analyzer.py and in
  scripts/analyze\_walks\_city\_specific.py.
\<close>

definition transit_checks :: "region_profile \<Rightarrow> path_metrics \<Rightarrow> bool" where
  "transit_checks params metrics =
     (if max_direct_distance params < direct_distance metrics then True
      else if max_walking_speed params * 1.2 < avg_speed metrics then True
      else if 2000 < direct_distance metrics \<and> sinuosity metrics < 1.05 then True
      else if avg_speed metrics < min_walking_speed params \<and> 500 < direct_distance metrics
      then True
      else False)"

definition city_is_probable_transit ::
    "arith \<Rightarrow> (string \<Rightarrow> pd_time option) \<Rightarrow> walk \<Rightarrow> string \<Rightarrow> error + bool" where
  "city_is_probable_transit ar to_datetime path city =
     (case CITY_PARAMS city of
        None \<Rightarrow> Inl KeyError
      | Some params \<Rightarrow>
         (case city_calculate_path_metrics ar to_datetime path city of
            Inl e \<Rightarrow> Inl e
          | Inr None \<Rightarrow> Inr False
          | Inr (Some metrics) \<Rightarrow> Inr (transit_checks params metrics)))"

text \<open>The filter loop of \<open>analyze_walks\<close> in the same file: the walks kept as valid.\<close>

fun city_valid_walks ::
    "arith \<Rightarrow> (string \<Rightarrow> pd_time option) \<Rightarrow> walk list \<Rightarrow> string \<Rightarrow> error + walk list" where
  "city_valid_walks ar to_datetime [] city = Inr []"
| "city_valid_walks ar to_datetime (w # ws) city =
     (case city_is_probable_transit ar to_datetime w city of
        Inl e \<Rightarrow> Inl e
      | Inr transit \<Rightarrow>
         (case city_valid_walks ar to_datetime ws city of
            Inl e \<Rightarrow> Inl e
          | Inr kept \<Rightarrow> Inr (if transit then kept else w # kept)))"

subsection \<open>utils/geo\_utils.py and data/walk\_analyzer.py: metrics of a GeoDataFrame\<close>

record geo_data_frame =
  gdf_crs :: string
  gdf_rows :: "walk list"

text \<open>
  What reading an attribute of a geometry cell gives. The geometry classes of shapely
  define \<open>length\<close>, \<open>coords\<close> and \<open>is_empty\<close> among others, and nothing about a
  coordinate reference system, which belongs to the GeoSeries: \<open>crs\<close> and \<open>to_crs\<close>
  are not attributes of a geometry, and reading them raises AttributeError, as reading
  any attribute of \<open>None\<close> does.
\<close>

datatype attr_value = AFloat real | ACoords "coord list" | ABool bool | AStr string

fun shapely_getattr :: "arith \<Rightarrow> shape \<Rightarrow> string \<Rightarrow> error + attr_value" where
  "shapely_getattr ar (LineString cs) name =
     (if name = ''length'' then Inr (AFloat (sum_consecutive ar (point_distance ar) 0 cs))
      else if name = ''coords'' then Inr (ACoords cs)
      else if name = ''is_empty'' then Inr (ABool (cs = []))
      else Inl AttributeError)"
| "shapely_getattr ar (MultiLineString parts) name =
     (if name = ''length''
      then Inr (AFloat (fold (\<lambda>cs total.
                   fadd ar total (sum_consecutive ar (point_distance ar) 0 cs)) parts 0))
      else if name = ''coords'' then Inl NotImplementedError
      else if name = ''is_empty'' then Inr (ABool (list_all (\<lambda>cs. cs = []) parts))
      else Inl AttributeError)"
| "shapely_getattr ar NoGeometry name = Inl AttributeError"

text \<open>
  \<open>geom.to_crs(crs)\<close>: the attribute is looked up first, then called; none of the
  attribute values above is callable.
\<close>

definition shapely_to_crs :: "arith \<Rightarrow> shape \<Rightarrow> string \<Rightarrow> error + shape" where
  "shapely_to_crs ar geom crs =
     (case shapely_getattr ar geom ''to_crs'' of Inl e \<Rightarrow> Inl e | Inr v \<Rightarrow> Inl TypeError)"

text \<open>The body of the \<open>try\<close> block of \<open>calculate_path_metrics\<close> in utils/geo\_utils.py.\<close>

definition geo_utils_metrics_body ::
    "arith \<Rightarrow> (string \<Rightarrow> pd_time option) \<Rightarrow> geo_data_frame \<Rightarrow> error + path_metrics" where
  "geo_utils_metrics_body ar to_datetime path =
     (case gdf_rows path of
        [] \<Rightarrow> Inl IndexError
      | r # rs \<Rightarrow>
         (case to_datetime (start_time r) of
            None \<Rightarrow> Inl ValueError
          | Some start \<Rightarrow>
             (case to_datetime (end_time (last (r # rs))) of
                None \<Rightarrow> Inl ValueError
              | Some end \<Rightarrow>
                 (case pd_total_seconds ar end start of
                    Inl e \<Rightarrow> Inl e
                  | Inr dur \<Rightarrow>
                     (let path_geom = geometry r
                      in case shapely_getattr ar path_geom ''crs'' of
                           Inl e \<Rightarrow> Inl e
                         | Inr crs \<Rightarrow>
                            (case (if crs \<noteq> AStr METRIC_CRS
                                   then shapely_to_crs ar path_geom METRIC_CRS
                                   else Inr path_geom) of
                               Inl e \<Rightarrow> Inl e
                             | Inr g \<Rightarrow>
                                (case shapely_getattr ar g ''length'' of
                                   Inl e \<Rightarrow> Inl e
                                 | Inr (AFloat pathd) \<Rightarrow>
                                    (case shapely_getattr ar g ''coords'' of
                                       Inl e \<Rightarrow> Inl e
                                     | Inr (ACoords cs) \<Rightarrow>
                                        (if cs = [] then Inl IndexError
                                         else
                                           (let direct = point_distance ar (hd cs) (last cs);
                                                speed = (case dur of
                                                    Num d \<Rightarrow> (if 0 < d then fdiv ar pathd d
                                                              else 0)
                                                  | NaN \<Rightarrow> 0);
                                                sinu = (if 0 < direct
                                                        then fdiv ar pathd direct else 1)
                                            in Inr \<lparr>direct_distance = direct,
                                                    path_distance = pathd, duration = dur,
                                                    avg_speed = speed, sinuosity = sinu\<rparr>))
                                     | Inr v \<Rightarrow> Inl TypeError)
                                 | Inr v \<Rightarrow> Inl TypeError)))))))"

text \<open>\<open>calculate_path_metrics\<close> of utils/geo\_utils.py: \<open>except Exception\<close> turns every
  error of the body into \<open>None\<close>.\<close>

definition geo_utils_calculate_path_metrics ::
    "arith \<Rightarrow> (string \<Rightarrow> pd_time option) \<Rightarrow> geo_data_frame \<Rightarrow> string \<Rightarrow> path_metrics option" where
  "geo_utils_calculate_path_metrics ar to_datetime path city =
     (case geo_utils_metrics_body ar to_datetime path of Inl e \<Rightarrow> None | Inr m \<Rightarrow> Some m)"

definition walk_analyzer_is_probable_transit ::
    "arith \<Rightarrow> (string \<Rightarrow> pd_time option) \<Rightarrow> geo_data_frame \<Rightarrow> string \<Rightarrow> error + bool" where
  "walk_analyzer_is_probable_transit ar to_datetime path city =
     (case CITY_PARAMS city of
        None \<Rightarrow> Inl KeyError
      | Some params \<Rightarrow>
         (case geo_utils_calculate_path_metrics ar to_datetime path city of
            None \<Rightarrow> Inr False
          | Some metrics \<Rightarrow> Inr (transit_checks params metrics)))"

text \<open>
  The filter loop of \<open>analyze_walks\<close> in data/walk\_analyzer.py: each row is wrapped
  in a one-row frame with the table's reference system and kept unless it is classified
  as transit.
\<close>

fun walk_analyzer_valid_walks ::
    "arith \<Rightarrow> (string \<Rightarrow> pd_time option) \<Rightarrow> string \<Rightarrow> walk list \<Rightarrow> string
       \<Rightarrow> error + walk list" where
  "walk_analyzer_valid_walks ar to_datetime crs [] city = Inr []"
| "walk_analyzer_valid_walks ar to_datetime crs (w # ws) city =
     (case walk_analyzer_is_probable_transit ar to_datetime
             \<lparr>gdf_crs = crs, gdf_rows = [w]\<rparr> city of
        Inl e \<Rightarrow> Inl e
      | Inr transit \<Rightarrow>
         (case walk_analyzer_valid_walks ar to_datetime crs ws city of
            Inl e \<Rightarrow> Inl e
          | Inr kept \<Rightarrow> Inr (if transit then kept else w # kept)))"

subsection \<open>Street coverage\<close>

text \<open>
  The coverage code calls the geometry library on line strings and polygons. The
  operations it uses are a parameter: a record of functions over a type \<open>'g\<close> of
  geometries. \<open>geom_is_lineal\<close> is the test
  \<open>isinstance(g, (LineString, MultiLineString))\<close>, and \<open>geom_to_crs src dst g\<close>
  takes \<open>g\<close> from the reference system \<open>src\<close> to \<open>dst\<close>.
\<close>

record 'g geom_ops =
  geom_length :: "'g \<Rightarrow> real"
  geom_is_empty :: "'g \<Rightarrow> bool"
  geom_is_lineal :: "'g \<Rightarrow> bool"
  geom_intersects :: "'g \<Rightarrow> 'g \<Rightarrow> bool"
  geom_intersection :: "'g \<Rightarrow> 'g \<Rightarrow> 'g"
  geom_union :: "'g \<Rightarrow> 'g \<Rightarrow> 'g"
  geom_buffer :: "'g \<Rightarrow> real \<Rightarrow> 'g"
  geom_to_crs :: "string \<Rightarrow> string \<Rightarrow> 'g \<Rightarrow> 'g"


text \<open>Float division: a zero divisor raises ZeroDivisionError.\<close>

definition py_div :: "real \<Rightarrow> real \<Rightarrow> error + real" where
  "py_div a b = (if b = 0 then Inl ZeroDivisionError else Inr (a / b))"

text \<open>The two output columns of a street.\<close>

record street_cov =
  covered :: bool
  coverage_percent :: real

text \<open>
  A street row of a streets table: its geometry and the two output columns, each of
  which may be there (\<open>Some\<close>) or not (\<open>None\<close>).
\<close>

record 'g street_row =
  street_geometry :: "'g"
  covered_col :: "bool option"
  coverage_percent_col :: "real option"

text \<open>\<open>calculate_coverage\<close> of utils/geo\_utils.py.\<close>

definition calculate_coverage :: "'g geom_ops \<Rightarrow> 'g \<Rightarrow> 'g list \<Rightarrow> error + real" where
  "calculate_coverage ops street_geom walk_buffers =
     (case walk_buffers of
        [] \<Rightarrow> Inr 0
      | b0 # rest \<Rightarrow>
         (let combined_buffer = fold (\<lambda>b c. geom_union ops c b) rest b0;
              inter = geom_intersection ops street_geom combined_buffer
          in if geom_is_empty ops inter then Inr 0
             else (case py_div (geom_length ops inter) (geom_length ops street_geom) of
                     Inl e \<Rightarrow> Inl e
                   | Inr q \<Rightarrow> Inr (min (q * 100) 100))))"

text \<open>The body of the street loop of \<open>analyze_walks\<close> in data/walk\_analyzer.py.\<close>

definition walk_analyzer_street_coverage ::
    "'g geom_ops \<Rightarrow> 'g \<Rightarrow> 'g list \<Rightarrow> error + street_cov" where
  "walk_analyzer_street_coverage ops street_geom walk_buffers =
     (case calculate_coverage ops street_geom walk_buffers of
        Inl e \<Rightarrow> Inl e
      | Inr coverage \<Rightarrow> Inr \<lparr>covered = (0 < coverage), coverage_percent = coverage\<rparr>)"

text \<open>
  The body of the street loop of \<open>match_walks_to_streets\<close>, for one street and the
  list of walk buffers; both columns start at \<open>False\<close> and \<open>0.0\<close>.
\<close>

definition match_street :: "'g geom_ops \<Rightarrow> 'g \<Rightarrow> 'g list \<Rightarrow> error + street_cov" where
  "match_street ops street_geom walks_buffer =
     (let intersecting_buffers = filter (\<lambda>b. geom_intersects ops b street_geom) walks_buffer
      in if intersecting_buffers \<noteq> []
         then
           (let covered_length =
                  fold (\<lambda>walk_buffer acc.
                          (let inter = geom_intersection ops street_geom walk_buffer
                           in if \<not> geom_is_empty ops inter \<and> geom_is_lineal ops inter
                              then acc + geom_length ops inter else acc))
                       intersecting_buffers 0
            in case py_div covered_length (geom_length ops street_geom) of
                 Inl e \<Rightarrow> Inl e
               | Inr q \<Rightarrow> Inr \<lparr>covered = True, coverage_percent = min 100 (q * 100)\<rparr>)
         else Inr \<lparr>covered = False, coverage_percent = 0\<rparr>)"

text \<open>
  The loop over all streets, which writes both columns of every row; the first
  exception ends the run.
\<close>

fun match_streets ::
    "'g geom_ops \<Rightarrow> 'g street_row list \<Rightarrow> 'g list \<Rightarrow> error + 'g street_row list" where
  "match_streets ops [] walks_buffer = Inr []"
| "match_streets ops (row # rows) walks_buffer =
     (case match_street ops (street_geometry row) walks_buffer of
        Inl e \<Rightarrow> Inl e
      | Inr r \<Rightarrow>
         (case match_streets ops rows walks_buffer of
            Inl e \<Rightarrow> Inl e
          | Inr rs \<Rightarrow> Inr (row\<lparr>covered_col := Some (covered r),
                               coverage_percent_col := Some (coverage_percent r)\<rparr> # rs)))"

text \<open>The walks table and the streets table, each with its reference system.\<close>

record 'g walks_frame =
  walks_crs :: string
  walks_geoms :: "'g list"

record 'g streets_frame =
  streets_crs :: string
  streets_rows :: "'g street_row list"

text \<open>
  The walk buffers of \<open>match_walks_to_streets\<close>: the walks are taken to the reference
  system of the streets if theirs differs, then to EPSG:3857, buffered there and taken
  back.
\<close>

definition match_walks_buffers ::
    "'g geom_ops \<Rightarrow> 'g walks_frame \<Rightarrow> 'g streets_frame \<Rightarrow> real \<Rightarrow> 'g list" where
  "match_walks_buffers ops walks_gdf streets_gdf buffer_dist =
     (let walks = (if walks_crs walks_gdf \<noteq> streets_crs streets_gdf
                   then map (geom_to_crs ops (walks_crs walks_gdf) (streets_crs streets_gdf))
                          (walks_geoms walks_gdf)
                   else walks_geoms walks_gdf);
          walks_projected = map (geom_to_crs ops (streets_crs streets_gdf) ''EPSG:3857'') walks;
          buffered = map (\<lambda>g. geom_buffer ops g buffer_dist) walks_projected
      in map (geom_to_crs ops ''EPSG:3857'' (streets_crs streets_gdf)) buffered)"

text \<open>
  \<open>match_walks_to_streets\<close>, returning the rows of the result. With no walks or no
  streets the streets table is returned as it came, before any column is created;
  otherwise every street is matched against the walk buffers.
\<close>

definition match_walks_to_streets ::
    "'g geom_ops \<Rightarrow> 'g walks_frame \<Rightarrow> 'g streets_frame \<Rightarrow> real \<Rightarrow> error + 'g street_row list" where
  "match_walks_to_streets ops walks_gdf streets_gdf buffer_dist =
     (if walks_geoms walks_gdf = [] \<or> streets_rows streets_gdf = []
      then Inr (streets_rows streets_gdf)
      else match_streets ops (streets_rows streets_gdf)
             (match_walks_buffers ops walks_gdf streets_gdf buffer_dist))"

text \<open>
  In \<open>analyze_walks\<close> of scripts/analyze\_walks\_city\_specific.py the columns are
  created with \<open>False\<close> and \<open>0.0\<close> only where they do not exist.
\<close>

definition city_init_columns :: "'g street_row \<Rightarrow> street_cov" where
  "city_init_columns row =
     \<lparr>covered = (case covered_col row of None \<Rightarrow> False | Some c \<Rightarrow> c),
      coverage_percent = (case coverage_percent_col row of None \<Rightarrow> 0 | Some p \<Rightarrow> p)\<rparr>"

text \<open>The body of the street loop of that \<open>analyze_walks\<close>, over the valid walks.\<close>

definition city_street_coverage ::
    "'g geom_ops \<Rightarrow> region_profile \<Rightarrow> 'g street_row \<Rightarrow> 'g list \<Rightarrow> street_cov" where
  "city_street_coverage ops params row valid_walks =
     (let street_geom = street_geometry row;
          covered_length =
            fold (\<lambda>walk_geom acc.
                    (let buffered_walk = geom_buffer ops walk_geom (buffer_distance params);
                         inter = geom_intersection ops street_geom buffered_walk
                     in if \<not> geom_is_empty ops inter then acc + geom_length ops inter
                        else acc))
                 valid_walks 0
      in if 0 < geom_length ops street_geom
         then (let pct = covered_length / geom_length ops street_geom * 100
               in \<lparr>covered = (0 < pct), coverage_percent = min pct 100\<rparr>)
         else city_init_columns row)"

subsection \<open>A discrete geometry\<close>

text \<open>
  An instance of the geometry operations on which the laws hold and the functions
  compute: a geometry is a list of marks on a line, the even number \<open>2 * k\<close> for the
  vertex \<open>k\<close> and the odd number \<open>2 * k + 1\<close> for the unit segment from \<open>k\<close> to
  \<open>k + 1\<close>. Its length counts the segments, a geometry without a segment is not
  lineal, a buffer of radius \<open>r\<close> is the geometry itself, and there is one reference
  system.
\<close>

definition marks_ops :: "nat list geom_ops" where
  "marks_ops =
     \<lparr>geom_length = (\<lambda>g. real (length (filter odd g))),
      geom_is_empty = (\<lambda>g. g = []),
      geom_is_lineal = (\<lambda>g. filter odd g \<noteq> []),
      geom_intersects = (\<lambda>a b. filter (\<lambda>x. x \<in> set b) a \<noteq> []),
      geom_intersection = (\<lambda>a b. filter (\<lambda>x. x \<in> set b) a),
      geom_union = (\<lambda>a b. a @ filter (\<lambda>x. x \<notin> set a) b),
      geom_buffer = (\<lambda>g r. g),
      geom_to_crs = (\<lambda>src dst g. g)\<rparr>"

subsection \<open>Time stamp parsers\<close>

text \<open>
  Instances of the two parser parameters: a string of decimal digits is a time in
  seconds, without a time zone. Of the other strings, the empty one gives \<open>NaT\<close> in
  \<open>decimal_to_datetime\<close>, as it does in \<open>pd.to_datetime\<close>, and every other one
  fails to parse.
\<close>

definition decimal_value :: "string \<Rightarrow> real option" where
  "decimal_value s =
     (if s \<noteq> [] \<and> list_all (\<lambda>c. c \<in> set ''0123456789'') s
      then Some (real (foldl (\<lambda>n c. 10 * n + (of_char c - 48)) 0 s))
      else None)"

definition decimal_to_datetime :: "string \<Rightarrow> pd_time option" where
  "decimal_to_datetime s =
     (if s = [] then Some NaT
      else case decimal_value s of None \<Rightarrow> None | Some t \<Rightarrow> Some (Timestamp t False))"

definition decimal_fromiso :: "string \<Rightarrow> (real \<times> bool) option" where
  "decimal_fromiso s = (case decimal_value s of None \<Rightarrow> None | Some t \<Rightarrow> Some (t, False))"

subsection \<open>The invariant of the splitter loop\<close>

text \<open>
  \<open>joined segs cur\<close> glues the closed segments and the run under construction back
  together, each later run without its first point, which it shares with the run before.
\<close>

fun joined :: "'c list list \<Rightarrow> 'c list \<Rightarrow> 'c list" where
  "joined [] cur = cur"
| "joined (s # ss) cur = s @ concat (map tl ss) @ tl cur"

text \<open>
  After at least one iteration over the points \<open>cs\<close>, with segment size \<open>N\<close>: every
  closed segment has \<open>N\<close> points, the current run is not empty and shorter than
  \<open>N\<close>, the runs glued together are \<open>cs\<close>, and every run starts with the last point of
  the run before it.
\<close>

definition split_inv :: "nat \<Rightarrow> 'c list \<Rightarrow> ('c, 't) split_state \<Rightarrow> bool" where
  "split_inv N cs st \<longleftrightarrow>
     (\<forall>s\<in>set (segments st). length s = N) \<and>
     current_segment st \<noteq> [] \<and> length (current_segment st) < N \<and>
     joined (segments st) (current_segment st) = cs \<and>
     (segments st \<noteq> [] \<longrightarrow> hd (current_segment st) = last (last (segments st))) \<and>
     (\<forall>i. Suc i < length (segments st) \<longrightarrow>
          hd (segments st ! Suc i) = last (segments st ! i))"

subsection \<open>The central angle\<close>

text \<open>
  The cosine of the angle at the centre of the sphere between two points given in
  radians: the inner product of their unit vectors. In exact arithmetic the haversine
  distance is the radius times this angle (lemma \<open>haversine_distance_exact\<close>).
\<close>

definition central_cos :: "real \<Rightarrow> real \<Rightarrow> real \<Rightarrow> real \<Rightarrow> real" where
  "central_cos lat1 lon1 lat2 lon2 =
     cos lat1 * cos lat2 * cos (lon2 - lon1) + sin lat1 * sin lat2"

text \<open>The length in kilometres of the great circle arc between two coordinates in degrees.\<close>

definition great_circle :: "coord \<Rightarrow> coord \<Rightarrow> real" where
  "great_circle p q =
     6371 * arccos (central_cos (snd p * (pi / 180)) (fst p * (pi / 180))
                                (snd q * (pi / 180)) (fst q * (pi / 180)))"

section \<open>Properties\<close>

subsection \<open>Facts about rounding\<close>

lemma round_half_even_nearest:
  assumes "of_int m - 1 / 2 < y" and "y < of_int m + 1 / 2"
  shows "round_half_even y = m"
proof (cases "of_int m \<le> y")
  case True
  then have "\<lfloor>y\<rfloor> = m"
    using assms(2) by (intro floor_unique) simp_all
  then show ?thesis
    using assms(2) by (simp add: round_half_even_def Let_def)
next
  case False
  then have "\<lfloor>y\<rfloor> = m - 1"
    using assms(1) by (intro floor_unique) simp_all
  then show ?thesis
    using False assms(1) by (simp add: round_half_even_def Let_def)
qed

lemma round_half_even_int: "round_half_even (of_int m) = m"
  by (rule round_half_even_nearest) simp_all

lemma floor_log2_eq:
  assumes "2 powi e \<le> x" and "x < 2 powi (e + 1)"
  shows "\<lfloor>log 2 x\<rfloor> = e"
proof -
  have pos: "0 < x"
    using assms(1) by (smt (verit) zero_less_power_int)
  have a: "(2::real) powr (of_int e) = 2 powi e"
    by (simp add: powr_real_of_int')
  have "(2::real) powr (of_int (e + 1)) = 2 powi (e + 1)"
    by (simp add: powr_real_of_int' del: of_int_add)
  then have b: "(2::real) powr (of_int e + 1) = 2 powi (e + 1)"
    by simp
  show ?thesis
    using assms pos a b by (simp add: floor_log_eq_powr_iff)
qed

lemma round_double_nearest:
  assumes "2 powi e \<le> \<bar>x\<bar>" and "\<bar>x\<bar> < 2 powi (e + 1)"
    and "of_int m - 1 / 2 < x / 2 powi (e - 52)" and "x / 2 powi (e - 52) < of_int m + 1 / 2"
  shows "round_double x = of_int m * 2 powi (e - 52)"
proof -
  have "x \<noteq> 0"
    using assms(1) by (smt (verit) zero_less_power_int)
  moreover have "\<lfloor>log 2 \<bar>x\<bar>\<rfloor> = e"
    using assms(1,2) by (rule floor_log2_eq)
  moreover have "round_half_even (x / 2 powi (e - 52)) = m"
    using assms(3,4) by (rule round_half_even_nearest)
  ultimately show ?thesis
    by (simp add: round_double_def Let_def)
qed

lemma floor_log2_bounds:
  assumes "0 < x"
  shows "2 powi \<lfloor>log 2 x\<rfloor> \<le> x \<and> x < 2 powi (\<lfloor>log 2 x\<rfloor> + 1)"
proof -
  define e where "e = \<lfloor>log 2 x\<rfloor>"
  have a: "(2::real) powr (of_int e) = 2 powi e"
    by (simp add: powr_real_of_int')
  have "(2::real) powr (of_int (e + 1)) = 2 powi (e + 1)"
    by (simp add: powr_real_of_int' del: of_int_add)
  then have b: "(2::real) powr (of_int e + 1) = 2 powi (e + 1)"
    by simp
  have "2 powr (of_int e) \<le> x \<and> x < 2 powr (of_int e + 1)"
    using assms floor_log_eq_powr_iff [of x 2 e] by (simp add: e_def)
  then have "2 powi e \<le> x \<and> x < 2 powi (e + 1)"
    by (simp only: a b)
  then show ?thesis
    by (simp only: e_def)
qed

lemma round_double_dyadic:
  assumes "n \<noteq> 0" and "\<bar>n\<bar> < 2 ^ 53"
  shows "round_double (of_int n * 2 powi k) = of_int n * 2 powi k"
proof -
  define en where "en = \<lfloor>log 2 \<bar>real_of_int n\<bar>\<rfloor>"
  have npos: "0 < \<bar>real_of_int n\<bar>"
    using assms(1) by simp
  have nb: "2 powi en \<le> \<bar>real_of_int n\<bar>" "\<bar>real_of_int n\<bar> < 2 powi (en + 1)"
    using floor_log2_bounds [OF npos] by (simp_all add: en_def)
  have "\<bar>real_of_int n\<bar> < 2 ^ 53"
    using assms(2) by (metis of_int_abs of_int_less_numeral_power_cancel_iff)
  then have "(2::real) powi en < 2 powi 53"
    using nb(1) by simp
  then have "en < 53"
    by (intro power_int_le_imp_less_exp [of "2::real"]) simp_all
  then have en_le: "en \<le> 52"
    by simp
  have "en + k - 52 = (en - 52) + k"
    by simp
  then have p2: "(2::real) powi (en + k - 52) = 2 powi (en - 52) * 2 powi k"
    by (simp only: power_int_add [of "2::real", simplified])
  have q2: "(2::real) powi (en - 52) * 2 powi (52 - en) = 1"
    by (simp add: power_int_add [symmetric])
  have lower: "2 powi (en + k) \<le> \<bar>real_of_int n * 2 powi k\<bar>"
    using nb(1) by (simp add: power_int_add abs_mult)
  have upper: "\<bar>real_of_int n * 2 powi k\<bar> < 2 powi (en + k + 1)"
  proof -
    have "(2::real) powi (en + k + 1) = 2 powi (en + 1) * 2 powi k"
      by (simp add: power_int_add [symmetric] algebra_simps)
    then show ?thesis
      using nb(2) by (simp add: abs_mult)
  qed
  have int_pow: "(2::real) powi (52 - en) = of_int (2 ^ nat (52 - en))"
    using en_le by (simp add: power_int_def)
  have quot: "real_of_int n * 2 powi k / 2 powi (en + k - 52) =
      of_int (n * 2 ^ nat (52 - en))"
  proof -
    have "real_of_int n * 2 powi k / 2 powi (en + k - 52) = real_of_int n / 2 powi (en - 52)"
      unfolding p2 by simp
    also have "\<dots> = real_of_int n * 2 powi (52 - en)"
      using q2 by (simp add: field_simps)
    finally show ?thesis
      unfolding int_pow by simp
  qed
  have "round_double (of_int n * 2 powi k) =
      of_int (n * 2 ^ nat (52 - en)) * 2 powi (en + k - 52)"
  proof (rule round_double_nearest)
    show "2 powi (en + k) \<le> \<bar>real_of_int n * 2 powi k\<bar>"
      by (rule lower)
    show "\<bar>real_of_int n * 2 powi k\<bar> < 2 powi (en + k + 1)"
      by (rule upper)
    show "of_int (n * 2 ^ nat (52 - en)) - 1 / 2
          < real_of_int n * 2 powi k / 2 powi (en + k - 52)"
      unfolding quot by simp
    show "real_of_int n * 2 powi k / 2 powi (en + k - 52)
          < of_int (n * 2 ^ nat (52 - en)) + 1 / 2"
      unfolding quot by simp
  qed
  also have "\<dots> = real_of_int n * (2 powi (52 - en) * 2 powi (en - 52)) * 2 powi k"
    unfolding p2 using int_pow by simp
  also have "\<dots> = real_of_int n * 2 powi k"
    using q2 by (simp add: mult.commute)
  finally show ?thesis .
qed

lemma round_double_zero: "round_double 0 = 0"
  by (simp add: round_double_def)

lemma one_le_round_double:
  assumes "1 \<le> z"
  shows "1 \<le> round_double z"
proof -
  define e where "e = \<lfloor>log 2 z\<rfloor>"
  have zpos: "0 < z" using assms by simp
  have b: "2 powi e \<le> z"
    using floor_log2_bounds [OF zpos] by (simp add: e_def)
  have "0 \<le> log 2 z"
    using assms by simp
  then have e0: "0 \<le> e"
    by (simp add: e_def)
  have upos: "0 < (2::real) powi (e - 52)"
    by simp
  have "(2::real) powi e / 2 powi (e - 52) = 2 powi 52"
    by (simp add: power_int_diff)
  moreover have "(2::real) powi e / 2 powi (e - 52) \<le> z / 2 powi (e - 52)"
    using b upos by (intro divide_right_mono) simp_all
  ultimately have "of_int (2 ^ 52) \<le> z / 2 powi (e - 52)"
    by simp
  then have "2 ^ 52 \<le> \<lfloor>z / 2 powi (e - 52)\<rfloor>"
    by (simp add: le_floor_iff)
  moreover have "\<lfloor>y\<rfloor> \<le> round_half_even y" for y
    by (simp add: round_half_even_def Let_def)
  ultimately have "2 ^ 52 \<le> round_half_even (z / 2 powi (e - 52))"
    by (meson order_trans)
  then have "(2::real) ^ 52 \<le> of_int (round_half_even (z / 2 powi (e - 52)))"
    by (metis of_int_le_iff of_int_numeral of_int_power)
  then have "(2::real) ^ 52 * 2 powi (e - 52) \<le>
      of_int (round_half_even (z / 2 powi (e - 52))) * 2 powi (e - 52)"
    using upos by (simp add: mult_right_mono)
  moreover have "(2::real) ^ 52 * 2 powi (e - 52) = 2 powi e"
    using power_int_add [of "2::real" 52 "e - 52"] by simp
  moreover have "(1::real) \<le> 2 powi e"
    using e0 by (simp add: one_le_power_int)
  ultimately have "(1::real) \<le> of_int (round_half_even (z / 2 powi (e - 52))) * 2 powi (e - 52)"
    by linarith
  then show ?thesis
    using zpos by (simp add: round_double_def Let_def e_def)
qed

subsection \<open>Shared facts\<close>

lemma london_profile:
  "CITY_PARAMS ''london'' =
     Some \<lparr>buffer_distance = 8, max_walking_speed = 2.5, min_walking_speed = 0.2,
            max_sinuosity = 3.0, max_direct_distance = 8000\<rparr>"
  by (simp add: CITY_PARAMS_def)

text \<open>
  The body of \<open>calculate_path_metrics\<close> in utils/geo\_utils.py never gets past the read
  of \<open>path_geom.crs\<close>: whatever the frame holds, it ends in an exception.
\<close>

lemma shapely_no_crs: "shapely_getattr ar g ''crs'' = Inl AttributeError"
  by (cases g) simp_all

lemma geo_utils_metrics_body_fails:
  "\<exists>e. geo_utils_metrics_body ar to_datetime path = Inl e"
  by (simp add: geo_utils_metrics_body_def shapely_no_crs Let_def
      split: list.split option.split sum.split)

lemma geo_utils_metrics_none:
  "geo_utils_calculate_path_metrics ar to_datetime path city = None"
proof -
  obtain e where "geo_utils_metrics_body ar to_datetime path = Inl e"
    using geo_utils_metrics_body_fails by blast
  then show ?thesis
    by (simp add: geo_utils_calculate_path_metrics_def)
qed

lemma walk_analyzer_never_transit:
  assumes "CITY_PARAMS city = Some params"
  shows "walk_analyzer_is_probable_transit ar to_datetime path city = Inr False"
  using assms by (simp add: walk_analyzer_is_probable_transit_def geo_utils_metrics_none)

lemma walk_analyzer_keeps_all:
  assumes "CITY_PARAMS city = Some params"
  shows "walk_analyzer_valid_walks ar to_datetime crs walks city = Inr walks"
  using assms by (induction walks) (simp_all add: walk_analyzer_never_transit)




lemma city_metrics_absent_iff:
  assumes "CITY_PARAMS city = Some params"
  shows "city_calculate_path_metrics ar to_datetime path city = Inr None \<longleftrightarrow>
           to_datetime (start_time path) = None \<or> to_datetime (end_time path) = None \<or>
           (\<exists>start stop dur cs.
              to_datetime (start_time path) = Some start \<and>
              to_datetime (end_time path) = Some stop \<and>
              pd_total_seconds ar stop start = Inr dur \<and>
              geometry path = LineString cs \<and> length cs < 2)"
  using assms
  by (cases "geometry path")
     (auto simp add: city_calculate_path_metrics_def Let_def split: option.splits sum.splits)


lemma binary64_ops:
  "fadd binary64 x y = round_double (x + y)"
  "fsub binary64 x y = round_double (x - y)"
  "fmul binary64 x y = round_double (x * y)"
  "fdiv binary64 x y = round_double (x / y)"
  "fsqrt binary64 x = round_double (sqrt x)"
  by (simp_all add: binary64_def)

lemma exact_ops:
  "fadd exact_arith x y = x + y"
  "fsub exact_arith x y = x - y"
  "fmul exact_arith x y = x * y"
  "fdiv exact_arith x y = x / y"
  "fsqrt exact_arith x = sqrt x"
  "fsin exact_arith x = sin x"
  "fcos exact_arith x = cos x"
  "fatan2 exact_arith y x = atan2 y x"
  "fpi exact_arith = pi"
  by (simp_all add: exact_arith_def)

text \<open>Numbers that binary64 represents exactly.\<close>

lemma round_double_exact:
  "round_double 1 = 1"
  "round_double (- 1) = - 1"
  "round_double 1800 = 1800"
  "round_double 3000 = 3000"
  "round_double (- 3000) = - 3000"
  "round_double 3600 = 3600"
  "round_double 9000000 = 9000000"
  using round_double_dyadic [of 1 0] round_double_dyadic [of "- 1" 0]
    round_double_dyadic [of 1800 0] round_double_dyadic [of 3000 0]
    round_double_dyadic [of "- 3000" 0] round_double_dyadic [of 3600 0]
    round_double_dyadic [of 9000000 0]
  by simp_all

lemma round_double_five_thirds: "round_double (5 / 3) = 7505999378950827 / 2 ^ 52"
proof -
  have "round_double (5 / 3) = of_int 7505999378950827 * 2 powi (0 - 52)"
    by (rule round_double_nearest) (simp_all add: power_int_minus_divide)
  then show ?thesis
    by (simp add: power_int_minus_divide)
qed

lemma sqrt_9000000: "sqrt 9000000 = 3000"
  by (rule real_sqrt_unique) simp_all

lemma straight_walk_metrics:
  "city_calculate_path_metrics binary64 decimal_to_datetime
     \<lparr>start_time = ''0'', end_time = ''1800'',
      geometry = LineString [(0, 0), (3000, 0)], source_file = ''a.gpx''\<rparr> ''london'' =
   Inr (Some \<lparr>direct_distance = 3000, path_distance = 3000, duration = Num 1800,
               avg_speed = 7505999378950827 / 2 ^ 52, sinuosity = 1\<rparr>)"
  by (simp add: city_calculate_path_metrics_def london_profile decimal_to_datetime_def
      decimal_value_def point_distance_def Let_def binary64_ops round_double_exact
      round_double_zero sqrt_9000000 round_double_five_thirds)



subsection \<open>C1: classification when no metrics can be computed\<close>




subsection \<open>C2: the metrics of utils/geo\_utils.py are never computed\<close>

text \<open>
  Claim C2: for every frame, \<open>calculate_path_metrics\<close> of utils/geo\_utils.py returns
  \<open>None\<close>, because reading \<open>crs\<close> from the shapely geometry raises AttributeError
  and the blanket \<open>except\<close> turns it into \<open>None\<close>; so, for every city that has a
  profile, \<open>is_probable_transit\<close> of data/walk\_analyzer.py returns \<open>False\<close> and
  \<open>analyze_walks\<close> keeps every walk as valid. (The profile is looked up before the
  metrics; a city without one raises KeyError.)
\<close>

theorem geo_utils_metrics_always_none:
  "geo_utils_calculate_path_metrics ar to_datetime path city = None \<and>
   (CITY_PARAMS city = Some params \<longrightarrow>
      walk_analyzer_is_probable_transit ar to_datetime path city = Inr False \<and>
      walk_analyzer_valid_walks ar to_datetime crs walks city = Inr walks)"
  by (simp add: geo_utils_metrics_none walk_analyzer_never_transit walk_analyzer_keeps_all)

text \<open>The theorem at a 3 km trip of five minutes in London, which stays a valid walk.\<close>

theorem geo_utils_metrics_always_none_witness:
  "CITY_PARAMS ''london'' =
     Some \<lparr>buffer_distance = 8, max_walking_speed = 2.5, min_walking_speed = 0.2,
            max_sinuosity = 3.0, max_direct_distance = 8000\<rparr> \<and>
   geo_utils_calculate_path_metrics binary64 decimal_to_datetime
     \<lparr>gdf_crs = ''EPSG:4326'',
      gdf_rows = [\<lparr>start_time = ''0'', end_time = ''300'',
                   geometry = LineString [(0, 0), (3000, 0)],
                   source_file = ''bus.gpx''\<rparr>]\<rparr>
     ''london'' = None \<and>
   walk_analyzer_is_probable_transit binary64 decimal_to_datetime
     \<lparr>gdf_crs = ''EPSG:4326'',
      gdf_rows = [\<lparr>start_time = ''0'', end_time = ''300'',
                   geometry = LineString [(0, 0), (3000, 0)],
                   source_file = ''bus.gpx''\<rparr>]\<rparr>
     ''london'' = Inr False \<and>
   walk_analyzer_valid_walks binary64 decimal_to_datetime ''EPSG:4326''
     [\<lparr>start_time = ''0'', end_time = ''300'',
       geometry = LineString [(0, 0), (3000, 0)], source_file = ''bus.gpx''\<rparr>] ''london'' =
     Inr [\<lparr>start_time = ''0'', end_time = ''300'',
           geometry = LineString [(0, 0), (3000, 0)], source_file = ''bus.gpx''\<rparr>]"
  using geo_utils_metrics_always_none
    [of binary64 decimal_to_datetime
        "\<lparr>gdf_crs = ''EPSG:4326'',
          gdf_rows = [\<lparr>start_time = ''0'', end_time = ''300'',
                       geometry = LineString [(0, 0), (3000, 0)],
                       source_file = ''bus.gpx''\<rparr>]\<rparr>"
        "''london''"
        "\<lparr>buffer_distance = 8, max_walking_speed = 2.5, min_walking_speed = 0.2,
          max_sinuosity = 3.0, max_direct_distance = 8000\<rparr>"
        "''EPSG:4326''"
        "[\<lparr>start_time = ''0'', end_time = ''300'',
           geometry = LineString [(0, 0), (3000, 0)], source_file = ''bus.gpx''\<rparr>]"]
    london_profile
  by simp

subsection \<open>C3: the trajectory classifier\<close>



subsection \<open>C8: the segment classifier\<close>



subsection \<open>Facts about the coverage loops\<close>


lemma py_div_nonzero: "b \<noteq> 0 \<Longrightarrow> py_div a b = Inr (a / b)"
  by (simp add: py_div_def)

lemma py_div_zero: "py_div a 0 = Inl ZeroDivisionError"
  by (simp add: py_div_def)












lemma two_overlapping_buffers:
  "match_street marks_ops [0, 1, 2, 3, 4] [[0, 1, 2, 3, 4], [1, 2, 3]] =
     Inr \<lparr>covered = True, coverage_percent = 100\<rparr>"
  by (simp add: match_street_def marks_ops_def py_div_def Let_def)


lemma walk_analyzer_covered_iff:
  assumes "walk_analyzer_street_coverage ops s bs = Inr r"
  shows "covered r \<longleftrightarrow> 0 < coverage_percent r"
  using assms by (auto simp add: walk_analyzer_street_coverage_def split: sum.splits)

lemma match_street_covered_iff:
  assumes "match_street ops s bs = Inr r"
  shows "covered r \<longleftrightarrow> (\<exists>b\<in>set bs. geom_intersects ops b s)"
  using assms
  by (auto simp add: match_street_def Let_def filter_empty_conv split: if_splits sum.splits)

lemma match_street_positive_covered:
  assumes "match_street ops s bs = Inr r" and "0 < coverage_percent r"
  shows "covered r"
  using assms
  by (auto simp add: match_street_def Let_def split: if_splits sum.splits)

lemma city_covered_iff:
  assumes "0 < geom_length ops (street_geometry row) \<or>
           (covered_col row = None \<and> coverage_percent_col row = None)"
  shows "covered (city_street_coverage ops params row ws) \<longleftrightarrow>
         0 < coverage_percent (city_street_coverage ops params row ws)"
  using assms
  by (auto simp add: city_street_coverage_def city_init_columns_def Let_def)

lemma zero_length_street_raises:
  assumes "geom_length ops s = 0" and "\<exists>b\<in>set bs. geom_intersects ops b s"
  shows "match_street ops s bs = Inl ZeroDivisionError"
  using assms
  by (auto simp add: match_street_def Let_def py_div_def filter_empty_conv)

lemma zero_length_street_guarded:
  assumes "geom_length ops (street_geometry row) = 0"
    and "covered_col row = None" and "coverage_percent_col row = None"
  shows "city_street_coverage ops params row ws = \<lparr>covered = False, coverage_percent = 0\<rparr>"
  using assms by (simp add: city_street_coverage_def city_init_columns_def Let_def)











subsection \<open>C5: the coverage percentage lies between 0 and 100\<close>




subsection \<open>C6: the covered flag and the coverage percentage\<close>

text \<open>
  Claim C6: \<open>covered\<close> is true exactly when the coverage percentage is positive. The
  two sibling loops set the flag from the percentage (\<open>walk_analyzer_covered_iff\<close>,
  \<open>city_covered_iff\<close>). \<open>match_walks_to_streets\<close> sets it as soon as some buffer
  intersects the street (\<open>match_street_covered_iff\<close>) and adds up only the
  intersections that are lines: for a walk whose buffer meets the street in its end
  vertex only, it reports the street as covered with a coverage of 0, where both
  sibling loops report it as not covered.
\<close>

theorem covered_without_coverage:
  "match_walks_to_streets marks_ops
     \<lparr>walks_crs = ''EPSG:4326'', walks_geoms = [[2, 3, 4]]\<rparr>
     \<lparr>streets_crs = ''EPSG:4326'',
      streets_rows = [\<lparr>street_geometry = [0, 1, 2], covered_col = None,
                       coverage_percent_col = None\<rparr>]\<rparr> 5 =
     Inr [\<lparr>street_geometry = [0, 1, 2], covered_col = Some True,
           coverage_percent_col = Some 0\<rparr>] \<and>
   match_street marks_ops [0, 1, 2] [[2, 3, 4]] =
     Inr \<lparr>covered = True, coverage_percent = 0\<rparr> \<and>
   walk_analyzer_street_coverage marks_ops [0, 1, 2] [[2, 3, 4]] =
     Inr \<lparr>covered = False, coverage_percent = 0\<rparr> \<and>
   city_street_coverage marks_ops
     \<lparr>buffer_distance = 8, max_walking_speed = 2.5, min_walking_speed = 0.2,
      max_sinuosity = 3.0, max_direct_distance = 8000\<rparr>
     \<lparr>street_geometry = [0, 1, 2], covered_col = None, coverage_percent_col = None\<rparr>
     [[2, 3, 4]] = \<lparr>covered = False, coverage_percent = 0\<rparr>"
  by (simp add: match_walks_to_streets_def match_walks_buffers_def match_street_def
      walk_analyzer_street_coverage_def calculate_coverage_def city_street_coverage_def
      marks_ops_def py_div_def Let_def)

subsection \<open>C7: a street of length zero\<close>

text \<open>
  Claim C7 says that a street of length zero gets a coverage of 0 and \<open>covered = False\<close>
  through a guard, without an exception. Only the city-specific loop has the guard
  (\<open>zero_length_street_guarded\<close>). At a street that consists of one vertex, inside a
  walk buffer, \<open>match_walks_to_streets\<close> divides by the length and raises
  ZeroDivisionError (in general: \<open>zero_length_street_raises\<close>).
\<close>

theorem zero_length_street_division:
  "geom_length marks_ops [2] = 0 \<and>
   geom_intersects marks_ops [0, 1, 2, 3, 4] [2] \<and>
   match_street marks_ops [2] [[0, 1, 2, 3, 4]] = Inl ZeroDivisionError \<and>
   match_walks_to_streets marks_ops
     \<lparr>walks_crs = ''EPSG:4326'', walks_geoms = [[0, 1, 2, 3, 4]]\<rparr>
     \<lparr>streets_crs = ''EPSG:4326'',
      streets_rows = [\<lparr>street_geometry = [2], covered_col = None,
                       coverage_percent_col = None\<rparr>]\<rparr> 5 = Inl ZeroDivisionError"
  by (simp add: match_walks_to_streets_def match_walks_buffers_def match_street_def
      marks_ops_def py_div_def Let_def)

subsection \<open>Facts about the splitter loop\<close>

lemma split_inv_first:
  assumes "2 \<le> N"
  shows "split_inv N [fst z] (split_step (int N) z split_init)"
  using assms by (simp add: split_inv_def split_step_def split_init_def Let_def)

lemma split_inv_step:
  assumes N: "2 \<le> N" and inv: "split_inv N cs st"
  shows "split_inv N (cs @ [fst z]) (split_step (int N) z st)"
proof (cases "N \<le> Suc (length (current_segment st))")
  case True
  with inv have len: "Suc (length (current_segment st)) = N"
    by (simp add: split_inv_def)
  from True N have st': "split_step (int N) z st =
      st\<lparr>segments := segments st @ [current_segment st @ [fst z]],
         segment_timestamps := segment_timestamps st @ [current_timestamps st @ [snd z]],
         current_segment := [fst z], current_timestamps := [snd z]\<rparr>"
    by (simp add: split_step_def Let_def)
  have ne: "current_segment st \<noteq> []"
    using inv by (simp add: split_inv_def)
  have a: "\<forall>s\<in>set (segments st @ [current_segment st @ [fst z]]). length s = N"
    using inv len by (auto simp add: split_inv_def)
  have b: "joined (segments st @ [current_segment st @ [fst z]]) [fst z] = cs @ [fst z]"
    using inv ne by (cases "segments st") (auto simp add: split_inv_def)
  have c: "\<forall>i. Suc i < length (segments st @ [current_segment st @ [fst z]]) \<longrightarrow>
          hd ((segments st @ [current_segment st @ [fst z]]) ! Suc i) =
          last ((segments st @ [current_segment st @ [fst z]]) ! i)"
  proof (intro allI impI)
    fix i
    assume i: "Suc i < length (segments st @ [current_segment st @ [fst z]])"
    show "hd ((segments st @ [current_segment st @ [fst z]]) ! Suc i) =
          last ((segments st @ [current_segment st @ [fst z]]) ! i)"
    proof (cases "Suc i < length (segments st)")
      case True
      then show ?thesis
        using inv by (simp add: split_inv_def nth_append)
    next
      case False
      with i have eq: "Suc i = length (segments st)" by simp
      then have nonempty: "segments st \<noteq> []" by auto
      have "last (segments st) = segments st ! i"
        using eq nonempty by (metis diff_Suc_1 last_conv_nth)
      then show ?thesis
        using inv eq ne nonempty by (simp add: split_inv_def nth_append)
    qed
  qed
  show ?thesis
    unfolding st' split_inv_def using a b c N by simp
next
  case False
  then have st': "split_step (int N) z st =
      st\<lparr>current_segment := current_segment st @ [fst z],
         current_timestamps := current_timestamps st @ [snd z]\<rparr>"
    by (simp add: split_step_def Let_def)
  have ne: "current_segment st \<noteq> []"
    using inv by (simp add: split_inv_def)
  have b: "joined (segments st) (current_segment st @ [fst z]) = cs @ [fst z]"
    using inv ne by (cases "segments st") (auto simp add: split_inv_def)
  show ?thesis
    unfolding st' split_inv_def using inv b False ne by (simp add: split_inv_def)
qed

lemma split_inv_fold:
  assumes "2 \<le> N" and "zs \<noteq> []"
  shows "split_inv N (map fst zs) (fold (split_step (int N)) zs split_init)"
  using assms(2)
proof (induction zs rule: rev_nonempty_induct)
  case (single z)
  then show ?case using split_inv_first [OF assms(1)] by simp
next
  case (snoc z zs)
  then show ?case using split_inv_step [OF assms(1)] by simp
qed

lemma length_concat_tl:
  assumes "\<forall>s\<in>set ss. s \<noteq> []"
  shows "length (concat (map tl ss)) + length ss = sum_list (map length ss)"
  using assms
proof (induction ss)
  case Nil
  then show ?case by simp
next
  case (Cons s ss)
  then obtain a t where s: "s = a # t"
    by (cases s) auto
  have "length (concat (map tl ss)) + length ss = sum_list (map length ss)"
    using Cons by simp
  then show ?case
    unfolding s by simp
qed

lemma sum_list_same_length:
  assumes "\<forall>s\<in>set ss. length s = N"
  shows "sum_list (map length ss) = length ss * N"
  using assms by (induction ss) simp_all

lemma split_loop_inv:
  assumes "2 \<le> N" and "2 \<le> length coords" and "length timestamps = length coords"
  shows "split_inv N coords (split_loop coords timestamps (int N))"
proof -
  have ne: "zip coords timestamps \<noteq> []"
    using assms(2,3) by (cases coords; cases timestamps) simp_all
  have "map fst (zip coords timestamps) = coords"
    using assms(3) by simp
  with split_inv_fold [OF assms(1) ne] show ?thesis
    by (simp add: split_loop_def)
qed

text \<open>What the invariant gives for the list that is returned.\<close>

lemma split_result_kept:
  assumes inv: "split_inv N coords st" and N: "2 \<le> N"
    and cur: "2 \<le> length (current_segment st)"
    and segs: "segs = segments st @ [current_segment st]"
  shows "segs \<noteq> [] \<and>
         (\<forall>s\<in>set segs. 2 \<le> length s \<and> length s \<le> N) \<and>
         (\<forall>i. Suc i < length segs \<longrightarrow>
              length (segs ! i) = N \<and> hd (segs ! Suc i) = last (segs ! i)) \<and>
         hd segs @ concat (map tl (tl segs)) = coords \<and>
         sum_list (map length segs) = (length segs - 1) * N + length (last segs) \<and>
         length (last segs) < N"
proof -
  have a: "\<forall>s\<in>set segs. 2 \<le> length s \<and> length s \<le> N"
    using inv N cur segs by (auto simp add: split_inv_def)
  have b: "\<forall>i. Suc i < length segs \<longrightarrow>
              length (segs ! i) = N \<and> hd (segs ! Suc i) = last (segs ! i)"
  proof (intro allI impI)
    fix i
    assume i: "Suc i < length segs"
    then have ilt: "i < length (segments st)"
      using segs by simp
    then have len: "length (segs ! i) = N"
      using inv segs by (simp add: split_inv_def nth_append)
    have "hd (segs ! Suc i) = last (segs ! i)"
    proof (cases "Suc i < length (segments st)")
      case True
      then show ?thesis
        using inv segs by (simp add: split_inv_def nth_append)
    next
      case False
      with ilt have eq: "Suc i = length (segments st)" by simp
      then have nonempty: "segments st \<noteq> []" by auto
      have "last (segments st) = segments st ! i"
        using eq nonempty by (metis diff_Suc_1 last_conv_nth)
      then show ?thesis
        using inv eq nonempty segs by (simp add: split_inv_def nth_append)
    qed
    with len show "length (segs ! i) = N \<and> hd (segs ! Suc i) = last (segs ! i)"
      by simp
  qed
  have c: "hd segs @ concat (map tl (tl segs)) = coords"
    using inv segs by (cases "segments st") (auto simp add: split_inv_def)
  have "sum_list (map length (segments st)) = length (segments st) * N"
    using inv by (intro sum_list_same_length) (simp add: split_inv_def)
  then have d: "sum_list (map length segs) = (length segs - 1) * N + length (last segs)"
    using segs by simp
  have e: "length (last segs) < N"
    using inv segs by (simp add: split_inv_def)
  from a b c d e segs show ?thesis by simp
qed

lemma split_result_dropped:
  assumes inv: "split_inv N coords st" and N: "2 \<le> N"
    and cur: "\<not> 2 \<le> length (current_segment st)"
    and L: "2 \<le> length coords"
    and segs: "segs = segments st"
  shows "segs \<noteq> [] \<and>
         (\<forall>s\<in>set segs. 2 \<le> length s \<and> length s \<le> N) \<and>
         (\<forall>i. Suc i < length segs \<longrightarrow>
              length (segs ! i) = N \<and> hd (segs ! Suc i) = last (segs ! i)) \<and>
         hd segs @ concat (map tl (tl segs)) = coords \<and>
         sum_list (map length segs) = (length segs - 1) * N + length (last segs) \<and>
         length (last segs) = N"
proof -
  have "current_segment st \<noteq> []"
    using inv by (simp add: split_inv_def)
  then have "0 < length (current_segment st)"
    by simp
  with cur have one: "length (current_segment st) = 1"
    by linarith
  have ne: "segs \<noteq> []"
  proof
    assume "segs = []"
    then have "current_segment st = coords"
      using inv segs by (simp add: split_inv_def)
    with one L show False by simp
  qed
  have a: "\<forall>s\<in>set segs. 2 \<le> length s \<and> length s \<le> N"
    using inv N segs by (auto simp add: split_inv_def)
  have b: "\<forall>i. Suc i < length segs \<longrightarrow>
              length (segs ! i) = N \<and> hd (segs ! Suc i) = last (segs ! i)"
    using inv segs by (simp add: split_inv_def)
  have tl_nil: "tl (current_segment st) = []"
    using one by (cases "current_segment st") simp_all
  have c: "hd segs @ concat (map tl (tl segs)) = coords"
    using inv segs ne tl_nil by (cases "segments st") (auto simp add: split_inv_def)
  have allN: "sum_list (map length segs) = length segs * N"
    using inv segs by (intro sum_list_same_length) (simp add: split_inv_def)
  have lastN: "length (last segs) = N"
    using inv segs ne by (simp add: split_inv_def)
  have "length segs * N = (length segs - 1) * N + N"
    using ne by (cases segs) simp_all
  with allN lastN have d: "sum_list (map length segs) = (length segs - 1) * N + length (last segs)"
    by simp
  from ne a b c d lastN show ?thesis by simp
qed

lemma run_count:
  fixes L K N f :: nat
  assumes "2 \<le> N" and "1 \<le> K" and "2 \<le> f" and "f \<le> N"
    and sum: "L + (K - 1) = (K - 1) * N + f"
  shows "K = (L - 1) div (N - 1) + (if (L - 1) mod (N - 1) = 0 then 0 else 1) \<and>
         f = (if (L - 1) mod (N - 1) = 0 then N else (L - 1) mod (N - 1) + 1)"
proof -
  obtain M where M: "N = Suc M" and Mpos: "0 < M"
    using assms(1) by (cases N) auto
  obtain k where k: "K = Suc k"
    using assms(2) by (cases K) auto
  obtain g where g: "f = Suc g" and gpos: "0 < g" and gle: "g \<le> M"
    using assms(3,4) M by (cases f) auto
  have L: "L - 1 = k * M + g"
    using sum unfolding M k g by simp
  show ?thesis
  proof (cases "g = M")
    case True
    then have "L - 1 = Suc k * M"
      using L by simp
    then show ?thesis
      using Mpos True unfolding M k g by simp
  next
    case False
    then have lt: "g < M" using gle by simp
    have "(L - 1) div M = k"
      unfolding L using lt Mpos by simp
    moreover have "(L - 1) mod M = g"
      unfolding L using lt by simp
    ultimately show ?thesis
      using gpos unfolding M k g by simp
  qed
qed

subsection \<open>C9: the segments of the splitter\<close>

text \<open>
  Claim C9: for \<open>L \<ge> 2\<close> coordinates with as many time stamps and a segment size
  \<open>N \<ge> 2\<close>, \<open>split_path_into_segments\<close> returns segments of at least 2 points each;
  every segment but the last has exactly \<open>N\<close> points; every later segment starts with
  the last point of the segment before it, and the segments, each later one without that
  shared point, are the input; the final run, of \<open>(L - 1) mod (N - 1) + 1\<close> points, is
  kept when it has at least 2 points and dropped when it is the single shared point; and
  the point counts of the segments add up to \<open>L\<close> plus the number of overlaps, so at
  least to \<open>L\<close>.
\<close>

theorem split_path_into_segments_shape:
  assumes "2 \<le> length coords" and "length timestamps = length coords" and "2 \<le> N"
  shows "let segs = fst (split_path_into_segments coords timestamps (int N));
             L = length coords
         in segs \<noteq> [] \<and>
            (\<forall>s\<in>set segs. 2 \<le> length s \<and> length s \<le> N) \<and>
            (\<forall>i. Suc i < length segs \<longrightarrow>
                 length (segs ! i) = N \<and> hd (segs ! Suc i) = last (segs ! i)) \<and>
            hd segs @ concat (map tl (tl segs)) = coords \<and>
            sum_list (map length segs) = L + (length segs - 1) \<and>
            L \<le> sum_list (map length segs) \<and>
            length segs = (L - 1) div (N - 1) + (if (L - 1) mod (N - 1) = 0 then 0 else 1) \<and>
            length (last segs) =
              (if (L - 1) mod (N - 1) = 0 then N else (L - 1) mod (N - 1) + 1)"
proof -
  define st where "st = split_loop coords timestamps (int N)"
  define segs where "segs = fst (split_path_into_segments coords timestamps (int N))"
  have inv: "split_inv N coords st"
    unfolding st_def using assms by (intro split_loop_inv)
  have shape: "segs \<noteq> [] \<and>
         (\<forall>s\<in>set segs. 2 \<le> length s \<and> length s \<le> N) \<and>
         (\<forall>i. Suc i < length segs \<longrightarrow>
              length (segs ! i) = N \<and> hd (segs ! Suc i) = last (segs ! i)) \<and>
         hd segs @ concat (map tl (tl segs)) = coords \<and>
         sum_list (map length segs) = (length segs - 1) * N + length (last segs)"
  proof (cases "2 \<le> length (current_segment st)")
    case True
    then have "segs = segments st @ [current_segment st]"
      by (simp add: segs_def split_path_into_segments_def st_def Let_def)
    from split_result_kept [OF inv assms(3) True this] show ?thesis by simp
  next
    case False
    then have "segs = segments st"
      by (simp add: segs_def split_path_into_segments_def st_def Let_def)
    from split_result_dropped [OF inv assms(3) False assms(1) this] show ?thesis by simp
  qed
  then have ne: "segs \<noteq> []"
    and bounds: "\<forall>s\<in>set segs. 2 \<le> length s \<and> length s \<le> N"
    and cover: "hd segs @ concat (map tl (tl segs)) = coords"
    and total: "sum_list (map length segs) = (length segs - 1) * N + length (last segs)"
    by simp_all
  obtain s0 rest where sr: "segs = s0 # rest"
    using ne by (cases segs) auto
  have "\<forall>s\<in>set rest. s \<noteq> []"
    using bounds sr by auto
  then have "length (concat (map tl rest)) + length rest = sum_list (map length rest)"
    by (rule length_concat_tl)
  moreover have "length coords = length s0 + length (concat (map tl rest))"
    using cover sr by (metis length_append list.sel(1) list.sel(3))
  ultimately have sum: "sum_list (map length segs) = length coords + (length segs - 1)"
    using sr by simp
  have lastb: "2 \<le> length (last segs) \<and> length (last segs) \<le> N"
    using bounds ne by simp
  have "1 \<le> length segs"
    using ne by (cases segs) simp_all
  moreover have "length coords + (length segs - 1) = (length segs - 1) * N + length (last segs)"
    using sum total by simp
  ultimately have count:
    "length segs = (length coords - 1) div (N - 1) +
        (if (length coords - 1) mod (N - 1) = 0 then 0 else 1) \<and>
     length (last segs) =
        (if (length coords - 1) mod (N - 1) = 0 then N else (length coords - 1) mod (N - 1) + 1)"
    using lastb assms(3) by (intro run_count) simp_all
  from shape sum count show ?thesis
    unfolding segs_def [symmetric] Let_def by simp
qed

text \<open>The theorem at six points and segment size 5: a full segment and a final run of two.\<close>

theorem split_path_into_segments_shape_witness:
  "2 \<le> length [1, 2, 3, 4, 5, 6 :: nat] \<and>
   length [10, 20, 30, 40, 50, 60 :: nat] = length [1, 2, 3, 4, 5, 6 :: nat] \<and>
   split_path_into_segments [1, 2, 3, 4, 5, 6 :: nat] [10, 20, 30, 40, 50, 60 :: nat] 5 =
     ([[1, 2, 3, 4, 5], [5, 6]], [[10, 20, 30, 40, 50], [50, 60]]) \<and>
   sum_list (map length [[1, 2, 3, 4, 5], [5, 6 :: nat]]) = 6 + (2 - 1) \<and>
   hd [[1, 2, 3, 4, 5], [5, 6 :: nat]] @ concat (map tl (tl [[1, 2, 3, 4, 5], [5, 6]])) =
     [1, 2, 3, 4, 5, 6]"
proof -
  have run: "split_path_into_segments [1, 2, 3, 4, 5, 6 :: nat]
      [10, 20, 30, 40, 50, 60 :: nat] 5 =
     ([[1, 2, 3, 4, 5], [5, 6]], [[10, 20, 30, 40, 50], [50, 60]])"
    by (simp add: split_path_into_segments_def split_loop_def split_step_def split_init_def
        Let_def)
  have "2 \<le> length [1, 2, 3, 4, 5, 6 :: nat]"
    and "length [10, 20, 30, 40, 50, 60 :: nat] = length [1, 2, 3, 4, 5, 6 :: nat]"
    and "2 \<le> (5 :: nat)"
    by simp_all
  from split_path_into_segments_shape [OF this] run show ?thesis
    by (simp add: Let_def)
qed

subsection \<open>Facts about the haversine distance\<close>

lemma gram_identity:
  fixes a1 a2 a3 b1 b2 b3 c1 c2 c3 :: real
  shows "(a1\<^sup>2 + a2\<^sup>2 + a3\<^sup>2) * (b1\<^sup>2 + b2\<^sup>2 + b3\<^sup>2) * (c1\<^sup>2 + c2\<^sup>2 + c3\<^sup>2)
         - (a1\<^sup>2 + a2\<^sup>2 + a3\<^sup>2) * (b1 * c1 + b2 * c2 + b3 * c3)\<^sup>2
         - (b1\<^sup>2 + b2\<^sup>2 + b3\<^sup>2) * (a1 * c1 + a2 * c2 + a3 * c3)\<^sup>2
         - (c1\<^sup>2 + c2\<^sup>2 + c3\<^sup>2) * (a1 * b1 + a2 * b2 + a3 * b3)\<^sup>2
         + 2 * (a1 * b1 + a2 * b2 + a3 * b3) * (b1 * c1 + b2 * c2 + b3 * c3)
             * (a1 * c1 + a2 * c2 + a3 * c3)
         = (a1 * (b2 * c3 - b3 * c2) - a2 * (b1 * c3 - b3 * c1) + a3 * (b1 * c2 - b2 * c1))\<^sup>2"
  by algebra

lemma cauchy_schwarz3:
  fixes a1 a2 a3 b1 b2 b3 :: real
  shows "(a1 * b1 + a2 * b2 + a3 * b3)\<^sup>2
         \<le> (a1\<^sup>2 + a2\<^sup>2 + a3\<^sup>2) * (b1\<^sup>2 + b2\<^sup>2 + b3\<^sup>2)"
proof -
  have "(a1\<^sup>2 + a2\<^sup>2 + a3\<^sup>2) * (b1\<^sup>2 + b2\<^sup>2 + b3\<^sup>2) - (a1 * b1 + a2 * b2 + a3 * b3)\<^sup>2
        = (a1 * b2 - a2 * b1)\<^sup>2 + (a1 * b3 - a3 * b1)\<^sup>2 + (a2 * b3 - a3 * b2)\<^sup>2"
    by algebra
  moreover have "0 \<le> (a1 * b2 - a2 * b1)\<^sup>2 + (a1 * b3 - a3 * b1)\<^sup>2 + (a2 * b3 - a3 * b2)\<^sup>2"
    by simp
  ultimately show ?thesis by linarith
qed

text \<open>The unit vector of a point on the sphere, by components.\<close>

lemma unit_vector_norm:
  fixes lat lon :: real
  shows "(cos lat * cos lon)\<^sup>2 + (cos lat * sin lon)\<^sup>2 + (sin lat)\<^sup>2 = 1"
proof -
  have "(cos lat * cos lon)\<^sup>2 + (cos lat * sin lon)\<^sup>2
        = (cos lat)\<^sup>2 * ((cos lon)\<^sup>2 + (sin lon)\<^sup>2)"
    by algebra
  then show ?thesis by simp
qed

lemma central_cos_dot:
  "central_cos lat1 lon1 lat2 lon2 =
     (cos lat1 * cos lon1) * (cos lat2 * cos lon2)
     + (cos lat1 * sin lon1) * (cos lat2 * sin lon2) + sin lat1 * sin lat2"
  unfolding central_cos_def cos_diff by algebra

lemma central_cos_range: "- 1 \<le> central_cos lat1 lon1 lat2 lon2 \<and>
    central_cos lat1 lon1 lat2 lon2 \<le> 1"
proof -
  have "(central_cos lat1 lon1 lat2 lon2)\<^sup>2 \<le> 1 * 1"
    unfolding central_cos_dot
    using cauchy_schwarz3 [of "cos lat1 * cos lon1" "cos lat2 * cos lon2"
        "cos lat1 * sin lon1" "cos lat2 * sin lon2" "sin lat1" "sin lat2"]
    by (simp only: unit_vector_norm)
  then have "\<bar>central_cos lat1 lon1 lat2 lon2\<bar> \<le> 1"
    by (simp add: abs_square_le_1)
  then show ?thesis by linarith
qed

lemma central_cos_self: "central_cos lat lon lat lon = 1"
  by (simp add: central_cos_def)

lemma central_cos_gram:
  "(central_cos lat1 lon1 lat2 lon2 * central_cos lat2 lon2 lat3 lon3
      - central_cos lat1 lon1 lat3 lon3)\<^sup>2
   \<le> (1 - (central_cos lat1 lon1 lat2 lon2)\<^sup>2) * (1 - (central_cos lat2 lon2 lat3 lon3)\<^sup>2)"
proof -
  define a1 a2 a3 where "a1 = cos lat1 * cos lon1" and "a2 = cos lat1 * sin lon1"
    and "a3 = sin lat1"
  define b1 b2 b3 where "b1 = cos lat2 * cos lon2" and "b2 = cos lat2 * sin lon2"
    and "b3 = sin lat2"
  define c1 c2 c3 where "c1 = cos lat3 * cos lon3" and "c2 = cos lat3 * sin lon3"
    and "c3 = sin lat3"
  define p q r where "p = a1 * b1 + a2 * b2 + a3 * b3" and "q = b1 * c1 + b2 * c2 + b3 * c3"
    and "r = a1 * c1 + a2 * c2 + a3 * c3"
  have na: "a1\<^sup>2 + a2\<^sup>2 + a3\<^sup>2 = 1" and nb: "b1\<^sup>2 + b2\<^sup>2 + b3\<^sup>2 = 1"
    and nc: "c1\<^sup>2 + c2\<^sup>2 + c3\<^sup>2 = 1"
    unfolding a1_def a2_def a3_def b1_def b2_def b3_def c1_def c2_def c3_def
    by (rule unit_vector_norm)+
  have "1 * 1 * 1 - 1 * q\<^sup>2 - 1 * r\<^sup>2 - 1 * p\<^sup>2 + 2 * p * q * r
        = (a1 * (b2 * c3 - b3 * c2) - a2 * (b1 * c3 - b3 * c1) + a3 * (b1 * c2 - b2 * c1))\<^sup>2"
    using gram_identity [of a1 a2 a3 b1 b2 b3 c1 c2 c3]
    unfolding na nb nc p_def q_def r_def .
  then have "0 \<le> 1 - q\<^sup>2 - r\<^sup>2 - p\<^sup>2 + 2 * p * q * r"
    by simp
  moreover have "(1 - p\<^sup>2) * (1 - q\<^sup>2) - (p * q - r)\<^sup>2 = 1 - q\<^sup>2 - r\<^sup>2 - p\<^sup>2 + 2 * p * q * r"
    by algebra
  ultimately have "(p * q - r)\<^sup>2 \<le> (1 - p\<^sup>2) * (1 - q\<^sup>2)"
    by linarith
  then show ?thesis
    unfolding central_cos_dot p_def q_def r_def
      a1_def a2_def a3_def b1_def b2_def b3_def c1_def c2_def c3_def .
qed

text \<open>The triangle inequality of the central angle.\<close>

lemma central_angle_triangle:
  "arccos (central_cos lat1 lon1 lat3 lon3)
   \<le> arccos (central_cos lat1 lon1 lat2 lon2) + arccos (central_cos lat2 lon2 lat3 lon3)"
proof -
  define p where "p = central_cos lat1 lon1 lat2 lon2"
  define q where "q = central_cos lat2 lon2 lat3 lon3"
  define r where "r = central_cos lat1 lon1 lat3 lon3"
  have pr: "- 1 \<le> p" "p \<le> 1" and qr: "- 1 \<le> q" "q \<le> 1" and rr: "- 1 \<le> r" "r \<le> 1"
    unfolding p_def q_def r_def using central_cos_range by simp_all
  have gram: "(p * q - r)\<^sup>2 \<le> (1 - p\<^sup>2) * (1 - q\<^sup>2)"
    unfolding p_def q_def r_def by (rule central_cos_gram)
  have ab: "0 \<le> arccos p" "arccos p \<le> pi" "0 \<le> arccos q" "arccos q \<le> pi"
    using pr qr by (simp_all add: arccos_lbound arccos_ubound)
  show ?thesis
    unfolding p_def [symmetric] q_def [symmetric] r_def [symmetric]
  proof (cases "arccos p + arccos q \<le> pi")
    case False
    have "arccos r \<le> pi"
      using rr by (rule arccos_ubound)
    with False show "arccos r \<le> arccos p + arccos q" by linarith
  next
    case True
    have "p * q - r \<le> \<bar>p * q - r\<bar>" by simp
    also have "\<dots> = sqrt ((p * q - r)\<^sup>2)" by simp
    also have "\<dots> \<le> sqrt ((1 - p\<^sup>2) * (1 - q\<^sup>2))"
      using gram by (rule real_sqrt_le_mono)
    also have "\<dots> = sqrt (1 - p\<^sup>2) * sqrt (1 - q\<^sup>2)"
      by (rule real_sqrt_mult)
    also have "\<dots> = sin (arccos p) * sin (arccos q)"
      using pr qr by (simp add: sin_arccos_abs abs_le_iff)
    finally have "p * q - sin (arccos p) * sin (arccos q) \<le> r"
      by linarith
    moreover have "cos (arccos p + arccos q) = p * q - sin (arccos p) * sin (arccos q)"
      using pr qr by (simp add: cos_add)
    ultimately have le: "cos (arccos p + arccos q) \<le> r"
      by simp
    have "- 1 \<le> cos (arccos p + arccos q)"
      by simp
    from arccos_le_arccos [OF this le rr(2)]
    have "arccos r \<le> arccos (cos (arccos p + arccos q))" .
    also have "\<dots> = arccos p + arccos q"
      using ab True by (intro arccos_cos) simp_all
    finally show "arccos r \<le> arccos p + arccos q" .
  qed
qed

lemma sin_half_squared:
  fixes x :: real
  shows "(sin (x / 2))\<^sup>2 = (1 - cos x) / 2"
  using cos_double_sin [of "x / 2"] by simp

lemma cos_half_squared:
  fixes x :: real
  shows "(cos (x / 2))\<^sup>2 = (1 + cos x) / 2"
  using cos_double_cos [of "x / 2"] by simp

lemma haversine_a_central:
  fixes lat1 lon1 lat2 lon2 :: real
  shows "sin ((lat2 - lat1) / 2) * sin ((lat2 - lat1) / 2)
         + cos lat1 * cos lat2 * (sin ((lon2 - lon1) / 2) * sin ((lon2 - lon1) / 2))
         = (1 - central_cos lat1 lon1 lat2 lon2) / 2"
proof -
  have "sin ((lat2 - lat1) / 2) * sin ((lat2 - lat1) / 2)
         + cos lat1 * cos lat2 * (sin ((lon2 - lon1) / 2) * sin ((lon2 - lon1) / 2)) =
          (1 - cos (lat2 - lat1)) / 2 + cos lat1 * cos lat2 * ((1 - cos (lon2 - lon1)) / 2)"
    using sin_half_squared [of "lat2 - lat1"] sin_half_squared [of "lon2 - lon1"]
    by (simp only: power2_eq_square)
  also have "\<dots> = (1 - central_cos lat1 lon1 lat2 lon2) / 2"
    unfolding central_cos_def cos_diff [of lat2 lat1] by (simp add: field_simps)
  finally show ?thesis .
qed

text \<open>The two square roots are the sine and the cosine of half the central angle.\<close>

lemma atan2_half_angle:
  assumes "- 1 \<le> c" and "c \<le> 1"
  shows "2 * atan2 (sqrt ((1 - c) / 2)) (sqrt (1 - (1 - c) / 2)) = arccos c"
proof -
  define t where "t = arccos c / 2"
  have t: "0 \<le> t" "t \<le> pi / 2"
    using arccos_lbound [OF assms] arccos_ubound [OF assms] by (simp_all add: t_def)
  have c: "c = cos (2 * t)"
    using assms by (simp add: t_def)
  have st: "0 \<le> sin t"
    using t by (intro sin_ge_zero) simp_all
  have ct: "0 \<le> cos t"
    using t by (intro cos_ge_zero) simp_all
  have "(1 - c) / 2 = (sin t)\<^sup>2"
    using sin_half_squared [of "2 * t"] c by simp
  then have s: "sqrt ((1 - c) / 2) = sin t"
    using st by simp
  have "1 - (1 - c) / 2 = (cos t)\<^sup>2"
    using cos_half_squared [of "2 * t"] c by (simp add: field_simps)
  then have k: "sqrt (1 - (1 - c) / 2) = cos t"
    using ct by simp
  have "atan2 (sin t) (cos t) = t"
  proof (cases "0 < cos t")
    case True
    have "t < pi / 2"
    proof (rule ccontr)
      assume "\<not> t < pi / 2"
      with t have "t = pi / 2" by simp
      with True show False by simp
    qed
    then have "arctan (tan t) = t"
      using t by (intro arctan_tan) simp_all
    then show ?thesis
      using True by (simp add: atan2_def tan_def)
  next
    case False
    with ct have z: "cos t = 0" by simp
    have "t = pi / 2"
    proof (rule ccontr)
      assume "t \<noteq> pi / 2"
      with t have "- (pi / 2) < t" "t < pi / 2" by simp_all
      then have "0 < cos t" by (rule cos_gt_zero_pi)
      with z show False by simp
    qed
    then have half: "t = pi / 2" .
    have "atan2 (sin (pi / 2)) (cos (pi / 2)) = pi / 2"
      by (simp add: atan2_def)
    then show ?thesis
      unfolding half .
  qed
  then show ?thesis
    unfolding s k by (simp add: t_def)
qed

text \<open>
  In exact arithmetic the haversine distance raises no exception and is the length of
  the great circle arc.
\<close>

lemma haversine_distance_exact:
  "haversine_coords exact_arith p q = Inr (great_circle p q)"
proof -
  define c where "c = central_cos (snd p * (pi / 180)) (fst p * (pi / 180))
      (snd q * (pi / 180)) (fst q * (pi / 180))"
  have r: "- 1 \<le> c" "c \<le> 1"
    unfolding c_def using central_cos_range by simp_all
  have a: "sin ((snd q * (pi / 180) - snd p * (pi / 180)) / 2)
             * sin ((snd q * (pi / 180) - snd p * (pi / 180)) / 2)
           + cos (snd p * (pi / 180)) * cos (snd q * (pi / 180))
             * (sin ((fst q * (pi / 180) - fst p * (pi / 180)) / 2)
                * sin ((fst q * (pi / 180) - fst p * (pi / 180)) / 2)) = (1 - c) / 2"
    unfolding c_def by (rule haversine_a_central)
  have nn: "\<not> (1 - c) / 2 < 0" "\<not> 1 - (1 - c) / 2 < 0"
    using r by simp_all
  show ?thesis
    unfolding haversine_coords_def haversine_distance_def radians_def py_sqrt_def
      exact_ops Let_def a great_circle_def c_def [symmetric]
    using atan2_half_angle [OF r] nn by simp
qed

lemma great_circle_triangle:
  "great_circle p r \<le> great_circle p q + great_circle q r"
  unfolding great_circle_def
  using central_angle_triangle [of "snd p * (pi / 180)" "fst p * (pi / 180)"
      "snd r * (pi / 180)" "fst r * (pi / 180)" "snd q * (pi / 180)" "fst q * (pi / 180)"]
  by simp

lemma great_circle_self: "great_circle p p = 0"
  by (simp add: great_circle_def central_cos_self)

lemma sum_haversine_exact:
  "sum_haversine exact_arith acc ps = Inr (sum_consecutive exact_arith great_circle acc ps)"
  by (induction exact_arith acc ps rule: sum_haversine.induct)
    (simp_all add: haversine_distance_exact)

subsection \<open>Facts about path lengths\<close>

lemma point_distance_cmod:
  "point_distance exact_arith p q = cmod (Complex (fst p) (snd p) - Complex (fst q) (snd q))"
  by (simp add: point_distance_def cmod_def exact_ops Let_def power2_eq_square)

lemma point_distance_triangle:
  "point_distance exact_arith p r \<le> point_distance exact_arith p q + point_distance exact_arith q r"
proof -
  have "Complex (fst p) (snd p) - Complex (fst r) (snd r) =
        (Complex (fst p) (snd p) - Complex (fst q) (snd q)) +
        (Complex (fst q) (snd q) - Complex (fst r) (snd r))"
    by simp
  then show ?thesis
    unfolding point_distance_cmod by (metis norm_triangle_ineq)
qed

lemma point_distance_self: "point_distance exact_arith p p = 0"
  by (simp add: point_distance_def exact_ops)

text \<open>The running total only shifts the sum.\<close>

lemma sum_consecutive_shift:
  "sum_consecutive exact_arith d (a + b) ps = a + sum_consecutive exact_arith d b ps"
proof (induction exact_arith d b ps rule: sum_consecutive.induct)
  case (1 d acc p q ps)
  then show ?case by (simp add: add.assoc exact_ops)
qed simp_all

lemma sum_consecutive_acc:
  "sum_consecutive exact_arith d acc ps = acc + sum_consecutive exact_arith d 0 ps"
  using sum_consecutive_shift [of d acc 0 ps] by simp

text \<open>The distance from the first to the last point is at most the length of the path.\<close>

lemma direct_le_path:
  assumes tri: "\<And>p q r. d p r \<le> d p q + d q r" and self: "\<And>p. d p p = 0"
    and "ps \<noteq> []"
  shows "d (hd ps) (last ps) \<le> sum_consecutive exact_arith d 0 ps"
  using assms(3)
proof (induction ps rule: induct_list012)
  case 1
  then show ?case by simp
next
  case (2 p)
  then show ?case by (simp add: self)
next
  case (3 p q ps)
  have "d p (last (q # ps)) \<le> d p q + d q (last (q # ps))"
    by (rule tri)
  also have "\<dots> \<le> d p q + sum_consecutive exact_arith d 0 (q # ps)"
    using "3.IH"(2) by simp
  also have "\<dots> = sum_consecutive exact_arith d 0 (p # q # ps)"
    using sum_consecutive_acc [of d "d p q" "q # ps"] by (simp add: exact_ops)
  finally show ?case by simp
qed

lemma sqrt_between:
  fixes a b x :: real
  assumes "0 \<le> a" and "a\<^sup>2 < x" and "0 \<le> b" and "x < b\<^sup>2"
  shows "a < sqrt x \<and> sqrt x < b"
proof -
  have "0 \<le> x" using assms(2) by (smt (verit) zero_le_power2)
  then show ?thesis
    using assms by (simp add: real_less_rsqrt real_less_lsqrt)
qed

lemma round_double_sqrt_half: "round_double (sqrt (1 / 2)) = 6369051672525773 / 2 ^ 53"
proof -
  have b: "(12738103345051545 / 2 ^ 54 :: real) < sqrt (1 / 2) \<and>
           sqrt (1 / 2) < (12738103345051547 / 2 ^ 54 :: real)"
    by (rule sqrt_between) (simp_all add: power2_eq_square)
  have "round_double (sqrt (1 / 2)) = of_int 6369051672525773 * 2 powi (- 1 - 52)"
    using b by (intro round_double_nearest) (simp_all add: power_int_minus_divide field_simps)
  then show ?thesis
    by (simp add: power_int_minus_divide)
qed

lemma round_double_sqrt_nine_halves:
  "round_double (sqrt (9 / 2)) = 4776788754394329 / 2 ^ 51"
proof -
  have b: "(9553577508788657 / 2 ^ 52 :: real) < sqrt (9 / 2) \<and>
           sqrt (9 / 2) < (9553577508788659 / 2 ^ 52 :: real)"
    by (rule sqrt_between) (simp_all add: power2_eq_square)
  have "round_double (sqrt (9 / 2)) = of_int 4776788754394329 * 2 powi (1 - 52)"
    using b by (intro round_double_nearest) (simp_all add: power_int_minus_divide field_simps)
  then show ?thesis
    by (simp add: power_int_minus_divide)
qed

lemma round_double_sqrt_eight: "round_double (sqrt 8) = 6369051672525773 / 2 ^ 51"
proof -
  have b: "(12738103345051545 / 2 ^ 52 :: real) < sqrt 8 \<and>
           sqrt 8 < (12738103345051547 / 2 ^ 52 :: real)"
    by (rule sqrt_between) (simp_all add: power2_eq_square)
  have "round_double (sqrt 8) = of_int 6369051672525773 * 2 powi (1 - 52)"
    using b by (intro round_double_nearest) (simp_all add: power_int_minus_divide field_simps)
  then show ?thesis
    by (simp add: power_int_minus_divide)
qed

text \<open>The sum of the two rounded legs, rounded: one unit below the rounded direct distance.\<close>

lemma round_double_legs:
  "round_double (6369051672525773 / 2 ^ 53 + 4776788754394329 / 2 ^ 51) =
     6369051672525772 / 2 ^ 51"
proof -
  have "round_double (6369051672525773 / 2 ^ 53 + 4776788754394329 / 2 ^ 51) =
          of_int 6369051672525772 * 2 powi (1 - 52)"
    by (rule round_double_nearest) (simp_all add: power_int_minus_divide field_simps)
  then show ?thesis
    by (simp add: power_int_minus_divide)
qed

lemma round_double_ratio:
  "round_double (6369051672525772 / 2 ^ 51 / (6369051672525773 / 2 ^ 51)) =
     9007199254740991 / 2 ^ 53"
proof -
  have "round_double (6369051672525772 / 2 ^ 51 / (6369051672525773 / 2 ^ 51)) =
          of_int 9007199254740991 * 2 powi (- 1 - 52)"
    by (rule round_double_nearest) (simp_all add: power_int_minus_divide field_simps)
  then show ?thesis
    by (simp add: power_int_minus_divide)
qed

lemma round_double_small:
  "round_double (- 2) = - 2" "round_double 4 = 4" "round_double 8 = 8"
  "round_double (- (1 / 2)) = - (1 / 2)" "round_double (1 / 4) = 1 / 4"
  "round_double (1 / 2) = 1 / 2"
  "round_double (- (3 / 2)) = - (3 / 2)" "round_double (9 / 4) = 9 / 4"
  "round_double (9 / 2) = 9 / 2"
  "round_double (6369051672525773 / 2 ^ 53) = 6369051672525773 / 2 ^ 53"
  "round_double (6369051672525772 / 2 ^ 51) = 6369051672525772 / 2 ^ 51"
  using round_double_dyadic [of "- 2" 0] round_double_dyadic [of 4 0]
    round_double_dyadic [of 8 0] round_double_dyadic [of "- 1" "- 1"]
    round_double_dyadic [of 1 "- 2"] round_double_dyadic [of 1 "- 1"]
    round_double_dyadic [of "- 3" "- 1"] round_double_dyadic [of 9 "- 2"]
    round_double_dyadic [of 9 "- 1"]
    round_double_dyadic [of 6369051672525773 "- 53"]
    round_double_dyadic [of 6369051672525772 "- 51"]
  by (simp_all add: power_int_minus_divide)

lemma collinear_walk_metrics:
  "city_calculate_path_metrics binary64 decimal_to_datetime
     \<lparr>start_time = ''0'', end_time = ''1'',
      geometry = LineString [(0, 0), (1 / 2, 1 / 2), (2, 2)],
      source_file = ''a.gpx''\<rparr> ''london'' =
   Inr (Some \<lparr>direct_distance = 6369051672525773 / 2 ^ 51,
               path_distance = 6369051672525772 / 2 ^ 51, duration = Num 1,
               avg_speed = 6369051672525772 / 2 ^ 51,
               sinuosity = 9007199254740991 / 2 ^ 53\<rparr>)"
proof -
  define D :: real where "D = 6369051672525773 / 2 ^ 51"
  define P :: real where "P = 6369051672525772 / 2 ^ 51"
  define S :: real where "S = 9007199254740991 / 2 ^ 53"
  have leg1: "point_distance binary64 (0, 0) (1 / 2, 1 / 2) = 6369051672525773 / 2 ^ 53"
    by (simp add: point_distance_def Let_def binary64_ops round_double_small
        round_double_sqrt_half)
  have leg2: "point_distance binary64 (1 / 2, 1 / 2) (2, 2) = 4776788754394329 / 2 ^ 51"
    by (simp add: point_distance_def Let_def binary64_ops round_double_small
        round_double_sqrt_nine_halves)
  have direct: "point_distance binary64 (0, 0) (2, 2) = D"
    unfolding D_def
    by (simp add: point_distance_def Let_def binary64_ops round_double_small
        round_double_sqrt_eight)
  have pathd: "sum_consecutive binary64 (point_distance binary64) 0
      [(0, 0), (1 / 2, 1 / 2), (2, 2)] = P"
    unfolding P_def
    by (simp only: sum_consecutive.simps leg1 leg2 binary64_ops add_0 round_double_small
        round_double_legs)
  have speed: "round_double P = P"
    unfolding P_def by (rule round_double_small)
  have sinu: "round_double (P / D) = S"
    unfolding P_def D_def S_def by (rule round_double_ratio)
  have pos: "0 < D"
    unfolding D_def by simp
  have "city_calculate_path_metrics binary64 decimal_to_datetime
     \<lparr>start_time = ''0'', end_time = ''1'',
      geometry = LineString [(0, 0), (1 / 2, 1 / 2), (2, 2)],
      source_file = ''a.gpx''\<rparr> ''london'' =
   Inr (Some \<lparr>direct_distance = D, path_distance = P, duration = Num 1,
               avg_speed = P, sinuosity = S\<rparr>)"
    using pos
    by (simp add: city_calculate_path_metrics_def london_profile decimal_to_datetime_def
        decimal_value_def Let_def binary64_ops round_double_exact direct pathd speed sinu
        del: sum_consecutive.simps)
  then show ?thesis
    unfolding D_def P_def S_def .
qed

lemma round_double_per_hour: "round_double (1 / 3600) = 5124095576030431 / 2 ^ 64"
proof -
  have "round_double (1 / 3600) = of_int 5124095576030431 * 2 powi (- 12 - 52)"
    by (rule round_double_nearest) (simp_all add: power_int_minus_divide)
  then show ?thesis
    by (simp add: power_int_minus_divide)
qed

lemma degree_walk_metrics:
  "city_calculate_path_metrics binary64 decimal_to_datetime
     \<lparr>start_time = ''0'', end_time = ''3600'',
      geometry = LineString [(0, 0), (0, 1)], source_file = ''car.gpx''\<rparr> ''london'' =
   Inr (Some \<lparr>direct_distance = 1, path_distance = 1, duration = Num 3600,
               avg_speed = 5124095576030431 / 2 ^ 64, sinuosity = 1\<rparr>)"
  by (simp add: city_calculate_path_metrics_def london_profile decimal_to_datetime_def
      decimal_value_def point_distance_def Let_def binary64_ops round_double_exact
      round_double_zero round_double_per_hour)

lemma sqrt_25: "sqrt 25 = 5"
  by (rule real_sqrt_unique) simp_all

lemma detour_walk_metrics:
  "city_calculate_path_metrics exact_arith decimal_to_datetime
     \<lparr>start_time = ''0'', end_time = ''10'',
      geometry = LineString [(0, 0), (3, 4), (6, 0)], source_file = ''a.gpx''\<rparr> ''london'' =
   Inr (Some \<lparr>direct_distance = 6, path_distance = 10, duration = Num 10,
               avg_speed = 1, sinuosity = 5 / 3\<rparr>)"
  by (simp add: city_calculate_path_metrics_def london_profile decimal_to_datetime_def
      decimal_value_def point_distance_def Let_def exact_ops sqrt_25)

lemma great_circle_quarter_turns:
  "great_circle (0, 0) (90, 0) = 6371 * pi / 2"
  "great_circle (0, 0) (0, 90) = 6371 * pi / 2"
  "great_circle (0, 90) (90, 0) = 6371 * pi / 2"
  by (simp_all add: great_circle_def central_cos_def)

lemma detour_segment_metrics:
  "calculate_segment_metrics exact_arith decimal_fromiso [(0, 0), (0, 90), (90, 0)]
     [TDatetime 0 False, TDatetime 1800 False, TDatetime 3600 False] =
   Inr (Some \<lparr>sm_direct_distance = 6371 * pi / 2, sm_path_distance = 6371 * pi,
               sm_duration_hours = 1, sm_avg_speed_kmh = 6371 * pi, sm_sinuosity = 2,
               sm_point_density = Finite (3 / (6371 * pi))\<rparr>)"
  by (simp add: calculate_segment_metrics_def haversine_distance_exact
      great_circle_quarter_turns exact_ops Let_def)

lemma great_circle_one_degree: "great_circle (0, 0) (0, 1) = 6371 * pi / 180"
proof -
  have "arccos (cos (pi / 180)) = pi / 180"
    by (rule arccos_cos) simp_all
  then show ?thesis
    by (simp add: great_circle_def central_cos_def)
qed

text \<open>The fields of computed metrics.\<close>

lemma city_metrics_fields:
  assumes "city_calculate_path_metrics ar to_datetime path city = Inr (Some m)"
  shows "\<exists>cs. shape_coords (geometry path) = Inr cs \<and> cs \<noteq> [] \<and>
           direct_distance m = point_distance ar (hd cs) (last cs) \<and>
           path_distance m = sum_consecutive ar (point_distance ar) 0 cs \<and>
           sinuosity m = (if 0 < direct_distance m
                          then fdiv ar (path_distance m) (direct_distance m) else 1)"
  using assms
  by (auto simp add: city_calculate_path_metrics_def Let_def
      split: option.splits sum.splits if_splits)

lemma segment_metrics_fields:
  assumes "calculate_segment_metrics ar fromiso coords timestamps = Inr (Some sm)"
  shows "coords \<noteq> [] \<and>
         haversine_coords ar (hd coords) (last coords) = Inr (sm_direct_distance sm) \<and>
         sum_haversine ar 0 coords = Inr (sm_path_distance sm) \<and>
         sm_sinuosity sm = (if 0 < sm_direct_distance sm
                            then fdiv ar (sm_path_distance sm) (sm_direct_distance sm)
                            else 1)"
  using assms
  by (auto simp add: calculate_segment_metrics_def Let_def
      split: list.splits sum.splits timestamp.splits if_splits)

lemma city_metrics_exact:
  assumes "city_calculate_path_metrics exact_arith to_datetime path city = Inr (Some m)"
  shows "direct_distance m \<le> path_distance m"
proof -
  from city_metrics_fields [OF assms] obtain cs where cs: "cs \<noteq> []"
    and m: "direct_distance m = point_distance exact_arith (hd cs) (last cs)"
      "path_distance m = sum_consecutive exact_arith (point_distance exact_arith) 0 cs"
    by blast
  show ?thesis
    unfolding m using point_distance_triangle point_distance_self cs by (rule direct_le_path)
qed

lemma segment_metrics_exact:
  assumes "calculate_segment_metrics exact_arith fromiso coords timestamps = Inr (Some sm)"
  shows "sm_direct_distance sm \<le> sm_path_distance sm"
proof -
  from segment_metrics_fields [OF assms] have ne: "coords \<noteq> []"
    and d: "sm_direct_distance sm = great_circle (hd coords) (last coords)"
    and p: "sm_path_distance sm = sum_consecutive exact_arith great_circle 0 coords"
    by (simp_all add: haversine_distance_exact sum_haversine_exact)
  show ?thesis
    unfolding d p using great_circle_triangle great_circle_self ne by (rule direct_le_path)
qed

lemma binary64_quotient: "0 < b \<Longrightarrow> b \<le> a \<Longrightarrow> 1 \<le> fdiv binary64 a b"
  by (simp add: binary64_ops one_le_round_double)

lemma exact_quotient: "0 < b \<Longrightarrow> b \<le> a \<Longrightarrow> 1 \<le> fdiv exact_arith a b"
  by (simp add: exact_ops)

subsection \<open>C10: the sinuosity is at least 1\<close>

text \<open>
  Claim C10 says that whenever metrics are computed the path distance is at least the
  direct distance, so that the sinuosity is at least 1 for a positive direct distance
  and equal to 1 for a direct distance of 0. What holds: the sinuosity is 1 when the
  direct distance is not positive; it is at least 1 when the direct distance is positive
  and not greater than the path distance as computed, for an arithmetic whose division
  never rounds a quotient of at least 1 below 1, as binary64 and exact arithmetic do;
  and in exact arithmetic the path distance is at least the direct distance, by the
  triangle inequality of the planar distance (scripts/analyze\_walks\_city\_specific.py)
  and of the central angle (scripts/analyze\_walks.py). In binary64 the sum of the
  rounded legs can be smaller than the rounded direct distance, and the sinuosity then
  is below 1.
\<close>

theorem sinuosity_at_least_one:
  "(city_calculate_path_metrics ar to_datetime path city = Inr (Some m) \<longrightarrow>
      (\<not> 0 < direct_distance m \<longrightarrow> sinuosity m = 1) \<and>
      ((\<forall>a b. 0 < b \<and> b \<le> a \<longrightarrow> 1 \<le> fdiv ar a b) \<and>
       0 < direct_distance m \<and> direct_distance m \<le> path_distance m \<longrightarrow>
         1 \<le> sinuosity m)) \<and>
   (calculate_segment_metrics ar fromiso coords timestamps = Inr (Some sm) \<longrightarrow>
      (\<not> 0 < sm_direct_distance sm \<longrightarrow> sm_sinuosity sm = 1) \<and>
      ((\<forall>a b. 0 < b \<and> b \<le> a \<longrightarrow> 1 \<le> fdiv ar a b) \<and>
       0 < sm_direct_distance sm \<and> sm_direct_distance sm \<le> sm_path_distance sm \<longrightarrow>
         1 \<le> sm_sinuosity sm)) \<and>
   (\<forall>a b. 0 < b \<and> b \<le> a \<longrightarrow> 1 \<le> fdiv binary64 a b) \<and>
   (\<forall>a b. 0 < b \<and> b \<le> a \<longrightarrow> 1 \<le> fdiv exact_arith a b) \<and>
   (city_calculate_path_metrics exact_arith to_datetime1 path1 city1 = Inr (Some m1) \<longrightarrow>
      direct_distance m1 \<le> path_distance m1) \<and>
   (calculate_segment_metrics exact_arith fromiso1 coords1 timestamps1 = Inr (Some sm1) \<longrightarrow>
      sm_direct_distance sm1 \<le> sm_path_distance sm1)"
proof -
  have city: "(\<not> 0 < direct_distance m \<longrightarrow> sinuosity m = 1) \<and>
      ((\<forall>a b. 0 < b \<and> b \<le> a \<longrightarrow> 1 \<le> fdiv ar a b) \<and>
       0 < direct_distance m \<and> direct_distance m \<le> path_distance m \<longrightarrow>
         1 \<le> sinuosity m)"
    if "city_calculate_path_metrics ar to_datetime path city = Inr (Some m)"
    using city_metrics_fields [OF that] by auto
  have segment: "(\<not> 0 < sm_direct_distance sm \<longrightarrow> sm_sinuosity sm = 1) \<and>
      ((\<forall>a b. 0 < b \<and> b \<le> a \<longrightarrow> 1 \<le> fdiv ar a b) \<and>
       0 < sm_direct_distance sm \<and> sm_direct_distance sm \<le> sm_path_distance sm \<longrightarrow>
         1 \<le> sm_sinuosity sm)"
    if "calculate_segment_metrics ar fromiso coords timestamps = Inr (Some sm)"
    using segment_metrics_fields [OF that] by auto
  show ?thesis
    using city segment binary64_quotient exact_quotient
      city_metrics_exact [of to_datetime1 path1 city1 m1]
      segment_metrics_exact [of fromiso1 coords1 timestamps1 sm1]
    by blast
qed

text \<open>
  The theorem at a straight planar walk in binary64 (sinuosity 1), at a planar walk with
  a detour (sinuosity 5/3) and at a segment over three points a quarter turn apart on
  the sphere (sinuosity 2), both in exact arithmetic.
\<close>

theorem sinuosity_at_least_one_witness:
  "city_calculate_path_metrics binary64 decimal_to_datetime
     \<lparr>start_time = ''0'', end_time = ''1800'',
      geometry = LineString [(0, 0), (3000, 0)], source_file = ''a.gpx''\<rparr> ''london'' =
   Inr (Some \<lparr>direct_distance = 3000, path_distance = 3000, duration = Num 1800,
               avg_speed = 7505999378950827 / 2 ^ 52, sinuosity = 1\<rparr>) \<and>
   (0 :: real) < 3000 \<and> (3000 :: real) \<le> 3000 \<and>
   calculate_segment_metrics exact_arith decimal_fromiso [(0, 0), (0, 90), (90, 0)]
     [TDatetime 0 False, TDatetime 1800 False, TDatetime 3600 False] =
   Inr (Some \<lparr>sm_direct_distance = 6371 * pi / 2, sm_path_distance = 6371 * pi,
               sm_duration_hours = 1, sm_avg_speed_kmh = 6371 * pi, sm_sinuosity = 2,
               sm_point_density = Finite (3 / (6371 * pi))\<rparr>) \<and>
   0 < 6371 * pi / 2 \<and> 6371 * pi / 2 \<le> 6371 * pi \<and>
   city_calculate_path_metrics exact_arith decimal_to_datetime
     \<lparr>start_time = ''0'', end_time = ''10'',
      geometry = LineString [(0, 0), (3, 4), (6, 0)], source_file = ''a.gpx''\<rparr> ''london'' =
   Inr (Some \<lparr>direct_distance = 6, path_distance = 10, duration = Num 10,
               avg_speed = 1, sinuosity = 5 / 3\<rparr>) \<and>
   (6 :: real) \<le> 10 \<and> (1 :: real) \<le> 5 / 3"
  using sinuosity_at_least_one
    [of binary64 decimal_to_datetime
        "\<lparr>start_time = ''0'', end_time = ''1800'',
          geometry = LineString [(0, 0), (3000, 0)], source_file = ''a.gpx''\<rparr>"
        "''london''"
        "\<lparr>direct_distance = 3000, path_distance = 3000, duration = Num 1800,
          avg_speed = 7505999378950827 / 2 ^ 52, sinuosity = 1\<rparr>"
        decimal_fromiso "[(0, 0)]" "[]"
        "\<lparr>sm_direct_distance = 0, sm_path_distance = 0, sm_duration_hours = 0,
          sm_avg_speed_kmh = 0, sm_sinuosity = 1, sm_point_density = Infinite\<rparr>"
        decimal_to_datetime
        "\<lparr>start_time = ''0'', end_time = ''10'',
          geometry = LineString [(0, 0), (3, 4), (6, 0)], source_file = ''a.gpx''\<rparr>"
        "''london''"
        "\<lparr>direct_distance = 6, path_distance = 10, duration = Num 10,
          avg_speed = 1, sinuosity = 5 / 3\<rparr>"
        decimal_fromiso "[(0, 0), (0, 90), (90, 0)]"
        "[TDatetime 0 False, TDatetime 1800 False, TDatetime 3600 False]"
        "\<lparr>sm_direct_distance = 6371 * pi / 2, sm_path_distance = 6371 * pi,
          sm_duration_hours = 1, sm_avg_speed_kmh = 6371 * pi, sm_sinuosity = 2,
          sm_point_density = Finite (3 / (6371 * pi))\<rparr>"]
    straight_walk_metrics detour_walk_metrics detour_segment_metrics
  by simp

text \<open>
  Claim C10 as stated fails in binary64: on the three collinear points \<open>(0, 0)\<close>,
  \<open>(0.5, 0.5)\<close>, \<open>(2, 2)\<close> the two legs are rounded to \<open>6369051672525773 / 2 ^ 53\<close>
  and \<open>4776788754394329 / 2 ^ 51\<close>, their rounded sum is one unit in the last place
  below the rounded direct distance, and the sinuosity is \<open>1 - 2 ^ - 53\<close>, which
  Python prints as 0.9999999999999999.
\<close>

theorem sinuosity_below_one_counterexample:
  "city_calculate_path_metrics binary64 decimal_to_datetime
     \<lparr>start_time = ''0'', end_time = ''1'',
      geometry = LineString [(0, 0), (1 / 2, 1 / 2), (2, 2)],
      source_file = ''a.gpx''\<rparr> ''london'' =
   Inr (Some \<lparr>direct_distance = 6369051672525773 / 2 ^ 51,
               path_distance = 6369051672525772 / 2 ^ 51, duration = Num 1,
               avg_speed = 6369051672525772 / 2 ^ 51,
               sinuosity = 9007199254740991 / 2 ^ 53\<rparr>) \<and>
   (0 :: real) < 6369051672525773 / 2 ^ 51 \<and>
   \<not> (6369051672525773 / 2 ^ 51 :: real) \<le> 6369051672525772 / 2 ^ 51 \<and>
   \<not> (1 :: real) \<le> 9007199254740991 / 2 ^ 53"
  using collinear_walk_metrics by simp

subsection \<open>C4: distances of geographic input\<close>

text \<open>
  Claim C4 says that for input in longitude and latitude the direct and the path
  distance are metric distances, never distances on the degree values.
  \<open>calculate_path_metrics\<close> of scripts/analyze\_walks\_city\_specific.py measures the
  coordinates as they are: for two points one degree of latitude apart it reports, in
  binary64, a distance of 1 where the great circle distance, which the haversine
  formula gives in exact arithmetic, is more than 70 km, and a trip over that distance
  in one hour passes every check of the classifier, whose thresholds are in metres and
  metres per second.
\<close>

theorem degree_distances_at_one_degree:
  "city_calculate_path_metrics binary64 decimal_to_datetime
     \<lparr>start_time = ''0'', end_time = ''3600'',
      geometry = LineString [(0, 0), (0, 1)], source_file = ''car.gpx''\<rparr> ''london'' =
   Inr (Some \<lparr>direct_distance = 1, path_distance = 1, duration = Num 3600,
               avg_speed = 5124095576030431 / 2 ^ 64, sinuosity = 1\<rparr>) \<and>
   city_is_probable_transit binary64 decimal_to_datetime
     \<lparr>start_time = ''0'', end_time = ''3600'',
      geometry = LineString [(0, 0), (0, 1)], source_file = ''car.gpx''\<rparr> ''london'' =
     Inr False \<and>
   haversine_coords exact_arith (0, 0) (0, 1) = Inr (6371 * pi / 180) \<and>
   70 < 6371 * pi / 180"
proof -
  have t: "city_is_probable_transit binary64 decimal_to_datetime
     \<lparr>start_time = ''0'', end_time = ''3600'',
      geometry = LineString [(0, 0), (0, 1)], source_file = ''car.gpx''\<rparr> ''london'' =
     Inr False"
    by (simp add: city_is_probable_transit_def degree_walk_metrics london_profile
        transit_checks_def)
  have "70 < 6371 * pi / 180"
    using pi_ge_two by simp
  with t degree_walk_metrics haversine_distance_exact [of "(0, 0)" "(0, 1)"]
    great_circle_one_degree
  show ?thesis by simp
qed

end
